theory Spec2Isabelle
  imports Main "HOL-Library.Sublist"
begin

section \<open>Python values shared by the helpers\<close>

text \<open>
  Exceptions are values. The constructors are the exception classes the helpers can meet;
  \<open>LibraryError cls msg\<close> stands for an exception class of a third-party package that
  derives from \<open>Exception\<close> (a refresh error of the auth package, an HTTP error of the API
  client). \<open>KeyboardInterrupt\<close> and \<open>SystemExit\<close> derive from \<open>BaseException\<close> only.
\<close>

datatype exc =
    AttributeError string
  | ValueError string
  | TypeError string
  | FileNotFoundError string
  | PermissionError string
  | UnpicklingError string
  | HeaderParseError string
  | UnicodeEncodeError string
  | LibraryError string string
  | KeyboardInterrupt
  | SystemExit string

fun is_Exception :: "exc \<Rightarrow> bool" where
  "is_Exception KeyboardInterrupt = False"
| "is_Exception (SystemExit _) = False"
| "is_Exception _ = True"

fun is_OSError :: "exc \<Rightarrow> bool" where
  "is_OSError (FileNotFoundError _) = True"
| "is_OSError (PermissionError _) = True"
| "is_OSError _ = False"

text \<open>\<open>str(err)\<close>: the message the exception carries.\<close>

fun str_exc :: "exc \<Rightarrow> string" where
  "str_exc (AttributeError m) = m"
| "str_exc (ValueError m) = m"
| "str_exc (TypeError m) = m"
| "str_exc (FileNotFoundError m) = m"
| "str_exc (PermissionError m) = m"
| "str_exc (UnpicklingError m) = m"
| "str_exc (HeaderParseError m) = m"
| "str_exc (UnicodeEncodeError m) = m"
| "str_exc (LibraryError cls m) = m"
| "str_exc KeyboardInterrupt = []"
| "str_exc (SystemExit m) = m"

text \<open>Truthiness of an optional string (\<open>None\<close> and \<open>""\<close> are falsy).\<close>

fun truthy :: "string option \<Rightarrow> bool" where
  "truthy None = False"
| "truthy (Some s) = (s \<noteq> [])"

section \<open>The file system\<close>

text \<open>
  A path maps to the bytes of the file there. \<open>can_read\<close> and \<open>can_write\<close> say whether
  the process is permitted to open the path for reading and for writing (for a path with
  no file: to create it), and \<open>parent_exists\<close> whether the directory of the path exists;
  the helpers never change these three. A file that exists has its directory.
\<close>

record filesystem =
  files :: "string \<rightharpoonup> string"
  can_read :: "string \<Rightarrow> bool"
  can_write :: "string \<Rightarrow> bool"
  parent_exists :: "string \<Rightarrow> bool"

definition path_exists :: "filesystem \<Rightarrow> string \<Rightarrow> bool" where
  "path_exists fs p = (files fs p \<noteq> None)"

definition open_rb :: "filesystem \<Rightarrow> string \<Rightarrow> exc + string" where
  "open_rb fs p =
     (case files fs p of
        None \<Rightarrow> Inl (FileNotFoundError p)
      | Some bytes \<Rightarrow> if can_read fs p then Inr bytes else Inl (PermissionError p))"

text \<open>
  \<open>open(p, "wb")\<close> followed by writing \<open>bytes\<close>: creating a file in a directory that does
  not exist raises \<open>FileNotFoundError\<close>; without permission it raises \<open>PermissionError\<close>.
\<close>

definition open_wb :: "filesystem \<Rightarrow> string \<Rightarrow> string \<Rightarrow> exc + filesystem" where
  "open_wb fs p bytes =
     (case files fs p of
        None \<Rightarrow>
          if \<not> parent_exists fs p then Inl (FileNotFoundError p)
          else if can_write fs p then Inr (fs\<lparr>files := (files fs)(p \<mapsto> bytes)\<rparr>)
          else Inl (PermissionError p)
      | Some old \<Rightarrow>
          if can_write fs p then Inr (fs\<lparr>files := (files fs)(p \<mapsto> bytes)\<rparr>)
          else Inl (PermissionError p))"

section \<open>Credential manager\<close>

text \<open>
  The credential object of the auth package, as far as \<open>get_gmail_credentials\<close> reads it:
  the attribute \<open>expired\<close>, the attribute \<open>refresh_token\<close> (a string or \<open>None\<close>), and the
  access token as the opaque rest.
\<close>

record credentials =
  expired :: bool
  refresh_token :: "string option"
  access_token :: string

text \<open>
  The calls into packages outside the repository are parameters:
  \<open>os.path.expanduser\<close>, \<open>pickle.load\<close> on the bytes of the token file (the cache holds a
  pickled credential or a pickled \<open>None\<close>), \<open>pickle.dump\<close>,
  \<open>InstalledAppFlow.from_client_secrets_file\<close> on the bytes of the credentials file,
  \<open>flow.run_local_server\<close> and \<open>credentials.refresh\<close>.
\<close>

record auth_lib =
  expanduser :: "string \<Rightarrow> string"
  pickle_load :: "string \<Rightarrow> exc + credentials option"
  pickle_dump :: "credentials \<Rightarrow> string"
  from_client_secrets :: "string \<Rightarrow> exc + string"
  run_local_server :: "string \<Rightarrow> exc + credentials"
  refresh :: "credentials \<Rightarrow> exc + credentials"

text \<open>The effects of one run, in order, beside the file system itself.\<close>

datatype event =
    Load_Token string
  | Interactive_Flow string
  | Refresh_Token credentials
  | Dump_Token string credentials

record world =
  fs :: filesystem
  trace :: "event list"

definition emit :: "event \<Rightarrow> world \<Rightarrow> world" where
  "emit ev w = w\<lparr>trace := trace w @ [ev]\<rparr>"

text \<open>
  Lines 72-75: \<open>gmail_credentials = None\<close>, replaced by the unpickled token file when the
  file exists.
\<close>

definition load_token :: "auth_lib \<Rightarrow> world \<Rightarrow> string \<Rightarrow> (exc + credentials option) \<times> world" where
  "load_token lib w token_file =
     (if path_exists (fs w) token_file then
        (case open_rb (fs w) token_file of
           Inl e \<Rightarrow> (Inl e, w)
         | Inr bytes \<Rightarrow> (pickle_load lib bytes, emit (Load_Token token_file) w))
      else (Inr None, w))"

text \<open>\<open>with open(gmail_token_file, "wb") as token: pickle.dump(gmail_credentials, token)\<close>\<close>

definition dump_token :: "auth_lib \<Rightarrow> world \<Rightarrow> string \<Rightarrow> credentials \<Rightarrow> (exc + credentials) \<times> world" where
  "dump_token lib w token_file c =
     (case open_wb (fs w) token_file (pickle_dump lib c) of
        Inl e \<Rightarrow> (Inl e, w)
      | Inr fs' \<Rightarrow> (Inr c, emit (Dump_Token token_file c) (w\<lparr>fs := fs'\<rparr>)))"

text \<open>\<open>generate_gmail_token\<close>, lines 94-111. It expands the path once more.\<close>

definition generate_gmail_token :: "auth_lib \<Rightarrow> world \<Rightarrow> string \<Rightarrow> (exc + credentials) \<times> world" where
  "generate_gmail_token lib w gmail_credentials_file =
     (let p = expanduser lib gmail_credentials_file in
      case open_rb (fs w) p of
        Inl e \<Rightarrow> (Inl e, w)
      | Inr secrets \<Rightarrow>
          (case from_client_secrets lib secrets of
             Inl e \<Rightarrow> (Inl e, w)
           | Inr flow \<Rightarrow> (run_local_server lib flow, emit (Interactive_Flow p) w)))"

definition refresh_credentials :: "auth_lib \<Rightarrow> world \<Rightarrow> credentials \<Rightarrow> (exc + credentials) \<times> world" where
  "refresh_credentials lib w c = (refresh lib c, emit (Refresh_Token c) w)"

text \<open>\<open>get_gmail_credentials\<close>, lines 51-91.\<close>

definition get_gmail_credentials ::
  "auth_lib \<Rightarrow> world \<Rightarrow> string \<Rightarrow> string \<Rightarrow> (exc + credentials) \<times> world" where
  "get_gmail_credentials lib w gmail_credentials_file gmail_token_file =
     (let cf = expanduser lib gmail_credentials_file;
          tf = expanduser lib gmail_token_file
      in case load_token lib w tf of
           (Inl e, w1) \<Rightarrow> (Inl e, w1)
         | (Inr None, w1) \<Rightarrow>
             (case generate_gmail_token lib w1 cf of
                (Inl e, w2) \<Rightarrow> (Inl e, w2)
              | (Inr c, w2) \<Rightarrow> dump_token lib w2 tf c)
         | (Inr (Some c), w1) \<Rightarrow>
             if expired c \<and> truthy (refresh_token c) then
               (case refresh_credentials lib w1 c of
                  (Inl e, w2) \<Rightarrow> (Inl e, w2)
                | (Inr c', w2) \<Rightarrow> dump_token lib w2 tf c')
             else if expired c \<and> \<not> truthy (refresh_token c) then
               (case generate_gmail_token lib w1 cf of
                  (Inl e, w2) \<Rightarrow> (Inl e, w2)
                | (Inr c', w2) \<Rightarrow> dump_token lib w2 tf c')
             else (Inr c, w1))"

subsection \<open>The state machine of the specification\<close>

text \<open>
  The credential manager as the specification words it, written on the contents of the
  files and the trace of effects alone, to be compared with the function above.

  The state of the cached credential is one of four.
\<close>

datatype cache_state =
    Absent
  | Valid_Not_Expired credentials
  | Expired_Refreshable credentials
  | Expired_Non_Refreshable credentials

fun cache_state_of :: "credentials option \<Rightarrow> cache_state" where
  "cache_state_of None = Absent"
| "cache_state_of (Some c) =
     (if \<not> expired c then Valid_Not_Expired c
      else if truthy (refresh_token c) then Expired_Refreshable c
      else Expired_Non_Refreshable c)"

text \<open>
  Step 1: if a cached token file exists, it is deserialised into a candidate credential.
\<close>

definition spec_cached :: "auth_lib \<Rightarrow> world \<Rightarrow> string \<Rightarrow> (exc + credentials option) \<times> world" where
  "spec_cached lib w token_path =
     (case files (fs w) token_path of
        None \<Rightarrow> (Inr None, w)
      | Some bytes \<Rightarrow>
          if can_read (fs w) token_path
          then (pickle_load lib bytes, \<lparr>fs = fs w, trace = trace w @ [Load_Token token_path]\<rparr>)
          else (Inl (PermissionError token_path), w))"

text \<open>
  Interactive authorisation: the flow is set up from the credentials file and run; it
  yields a brand-new credential or fails.
\<close>

definition spec_interactive_auth :: "auth_lib \<Rightarrow> world \<Rightarrow> string \<Rightarrow> (exc + credentials) \<times> world" where
  "spec_interactive_auth lib w secrets_path =
     (case files (fs w) secrets_path of
        None \<Rightarrow> (Inl (FileNotFoundError secrets_path), w)
      | Some secrets \<Rightarrow>
          if \<not> can_read (fs w) secrets_path then (Inl (PermissionError secrets_path), w)
          else (case from_client_secrets lib secrets of
                  Inl e \<Rightarrow> (Inl e, w)
                | Inr flow \<Rightarrow>
                    (run_local_server lib flow,
                     \<lparr>fs = fs w, trace = trace w @ [Interactive_Flow secrets_path]\<rparr>)))"

text \<open>Refresh: one non-interactive request to the provider for the cached credential.\<close>

definition spec_refresh :: "auth_lib \<Rightarrow> world \<Rightarrow> credentials \<Rightarrow> (exc + credentials) \<times> world" where
  "spec_refresh lib w c = (refresh lib c, \<lparr>fs = fs w, trace = trace w @ [Refresh_Token c]\<rparr>)"

text \<open>
  Persisting: the token cache file then holds the serialised credential, every other file
  is as before, and the credential is the result. A failure to obtain the credential, or
  to write the file, is the result instead, and the files stay as they are.
\<close>

definition spec_persist ::
  "auth_lib \<Rightarrow> string \<Rightarrow> (exc + credentials) \<times> world \<Rightarrow> (exc + credentials) \<times> world" where
  "spec_persist lib token_path obtained =
     (case obtained of
        (Inl e, w) \<Rightarrow> (Inl e, w)
      | (Inr c, w) \<Rightarrow>
          if files (fs w) token_path = None \<and> \<not> parent_exists (fs w) token_path
          then (Inl (FileNotFoundError token_path), w)
          else if \<not> can_write (fs w) token_path
          then (Inl (PermissionError token_path), w)
          else (Inr c,
                \<lparr>fs = \<lparr>files = (files (fs w))(token_path \<mapsto> pickle_dump lib c),
                        can_read = can_read (fs w),
                        can_write = can_write (fs w),
                        parent_exists = parent_exists (fs w)\<rparr>,
                 trace = trace w @ [Dump_Token token_path c]\<rparr>))"

text \<open>
  The four transitions: \<open>{absent} \<rightarrow> interactive-auth\<close>, \<open>{valid, not-expired} \<rightarrow> no-op\<close>,
  \<open>{valid, expired, refreshable} \<rightarrow> refresh\<close>,
  \<open>{valid, expired, non-refreshable} \<rightarrow> interactive-auth\<close>; what interactive
  authorisation and refresh obtain is persisted.
\<close>

fun spec_run ::
  "auth_lib \<Rightarrow> world \<Rightarrow> string \<Rightarrow> string \<Rightarrow> cache_state \<Rightarrow> (exc + credentials) \<times> world" where
  "spec_run lib w secrets_path token_path Absent =
     spec_persist lib token_path (spec_interactive_auth lib w secrets_path)"
| "spec_run lib w secrets_path token_path (Valid_Not_Expired c) = (Inr c, w)"
| "spec_run lib w secrets_path token_path (Expired_Refreshable c) =
     spec_persist lib token_path (spec_refresh lib w c)"
| "spec_run lib w secrets_path token_path (Expired_Non_Refreshable c) =
     spec_persist lib token_path (spec_interactive_auth lib w secrets_path)"

definition spec_get_credentials ::
  "auth_lib \<Rightarrow> world \<Rightarrow> string \<Rightarrow> string \<Rightarrow> (exc + credentials) \<times> world" where
  "spec_get_credentials lib w secrets_path token_path =
     (case spec_cached lib w token_path of
        (Inl e, w1) \<Rightarrow> (Inl e, w1)
      | (Inr cached, w1) \<Rightarrow> spec_run lib w1 secrets_path token_path (cache_state_of cached))"

section \<open>Sender\<close>

datatype log_level = INFO | ERROR

text \<open>A log record: level, message, and the exception \<open>logging.exception\<close> attaches.\<close>

type_synonym log_record = "log_level \<times> string \<times> exc option"

text \<open>
  The connected service: the request bodies submitted so far, and the outcome the provider
  gives to the n-th request.
\<close>

record gmail_service =
  requests :: "(string \<times> string) list list"
  respond :: "nat \<Rightarrow> (string \<times> string) list \<Rightarrow> exc + unit"

definition execute_send ::
  "gmail_service \<Rightarrow> (string \<times> string) list \<Rightarrow> (exc + unit) \<times> gmail_service" where
  "execute_send svc body =
     (respond svc (length (requests svc)) body, svc\<lparr>requests := requests svc @ [body]\<rparr>)"

text \<open>\<open>send_email\<close>, lines 119-135. \<open>except Exception\<close> does not catch the other exceptions.\<close>

definition send_email ::
  "gmail_service \<Rightarrow> (string \<times> string) list \<Rightarrow> log_record list
     \<Rightarrow> (exc + unit) \<times> gmail_service \<times> log_record list" where
  "send_email svc email_msg log =
     (let log1 = log @ [(INFO, ''Sending Email through Gmail'', None)]
      in case execute_send svc email_msg of
           (Inr u, svc') \<Rightarrow> (Inr (), svc', log1)
         | (Inl err, svc') \<Rightarrow>
             if is_Exception err then
               (Inl err, svc',
                log1 @ [(ERROR, ''Error: unable to send email through gmail: '' @ str_exc err,
                         Some err)])
             else (Inl err, svc', log1))"

section \<open>Strings and bytes\<close>

text \<open>
  A Python \<open>str\<close> is held as the list of its UTF-8 bytes and a \<open>bytes\<close> object as the
  list of its bytes, so \<open>.encode()\<close> and \<open>.decode()\<close> on well-formed text are the identity.
  The two are kept apart where the code passes one for the other.
\<close>

datatype py_data = Py_str string | Py_bytes string

definition is_ascii :: "string \<Rightarrow> bool" where
  "is_ascii s = list_all (\<lambda>c. (of_char c :: nat) < 128) s"

definition printable :: "char \<Rightarrow> bool" where
  "printable c = (32 \<le> (of_char c :: nat) \<and> (of_char c :: nat) \<le> 126)"

text \<open>\<open>sep.join(xs)\<close>\<close>

fun join :: "string \<Rightarrow> string list \<Rightarrow> string" where
  "join sep [] = []"
| "join sep [x] = x"
| "join sep (x # y # ys) = x @ sep @ join sep (y # ys)"

text \<open>\<open>s.endswith(suffix)\<close>\<close>

definition endswith :: "string \<Rightarrow> string \<Rightarrow> bool" where
  "endswith s suf = (length suf \<le> length s \<and> drop (length s - length suf) s = suf)"

text \<open>\<open>s.split(c)\<close> for a one-character separator: never the empty list.\<close>

fun split_char :: "char \<Rightarrow> string \<Rightarrow> string list" where
  "split_char c [] = [[]]"
| "split_char c (x # xs) =
     (if x = c then [] # split_char c xs
      else (case split_char c xs of
              [] \<Rightarrow> [[x]]
            | y # ys \<Rightarrow> (x # y) # ys))"

subsection \<open>Base64\<close>

definition standard_alphabet :: string where
  "standard_alphabet =
     ''ABCDEFGHIJKLMNOPQRSTUVWXYZabcdefghijklmnopqrstuvwxyz0123456789+/''"

definition urlsafe_alphabet :: string where
  "urlsafe_alphabet =
     ''ABCDEFGHIJKLMNOPQRSTUVWXYZabcdefghijklmnopqrstuvwxyz0123456789-_''"

text \<open>Three bytes become four sextets; a short last group is padded with \<open>=\<close>.\<close>

fun b64_groups :: "string \<Rightarrow> nat list \<Rightarrow> string" where
  "b64_groups al [] = []"
| "b64_groups al [a] =
     [al ! (a div 4), al ! ((a mod 4) * 16), CHR ''='', CHR ''='']"
| "b64_groups al [a, b] =
     [al ! (a div 4), al ! ((a mod 4) * 16 + b div 16), al ! ((b mod 16) * 4), CHR ''='']"
| "b64_groups al (a # b # c # rest) =
     [al ! (a div 4), al ! ((a mod 4) * 16 + b div 16),
      al ! ((b mod 16) * 4 + c div 64), al ! (c mod 64)] @ b64_groups al rest"

definition b64encode :: "string \<Rightarrow> string \<Rightarrow> string" where
  "b64encode al bytes = b64_groups al (map of_char bytes)"

text \<open>\<open>base64.urlsafe_b64encode\<close>: the standard encoding with \<open>-\<close> and \<open>_\<close> for \<open>+\<close> and \<open>/\<close>.\<close>

definition urlsafe_b64encode :: "string \<Rightarrow> string" where
  "urlsafe_b64encode bytes = b64encode urlsafe_alphabet bytes"

fun index_of :: "'a list \<Rightarrow> 'a \<Rightarrow> nat option" where
  "index_of [] x = None"
| "index_of (y # ys) x = (if x = y then Some 0 else map_option Suc (index_of ys x))"

text \<open>
  Decoding of canonical input (groups of four characters of the alphabet, padding only in
  the last group); anything else is \<open>None\<close>, the decoder's error.
\<close>

fun b64_ungroups :: "string \<Rightarrow> string \<Rightarrow> nat list option" where
  "b64_ungroups al (p # q # r # s # rest) =
     (case (index_of al p, index_of al q) of
        (Some i, Some j) \<Rightarrow>
          if r = CHR ''='' \<and> s = CHR ''='' \<and> rest = [] then Some [i * 4 + j div 16]
          else (case index_of al r of
                  None \<Rightarrow> None
                | Some k \<Rightarrow>
                    if s = CHR ''='' \<and> rest = [] then
                      Some [i * 4 + j div 16, (j mod 16) * 16 + k div 4]
                    else (case index_of al s of
                            None \<Rightarrow> None
                          | Some l \<Rightarrow>
                              map_option
                                (\<lambda>ns. [i * 4 + j div 16, (j mod 16) * 16 + k div 4,
                                       (k mod 4) * 64 + l] @ ns)
                                (b64_ungroups al rest)))
      | _ \<Rightarrow> None)"
| "b64_ungroups al [] = Some []"
| "b64_ungroups al _ = None"

definition urlsafe_b64decode :: "string \<Rightarrow> string option" where
  "urlsafe_b64decode s = map_option (map char_of) (b64_ungroups urlsafe_alphabet s)"

text \<open>What the decoder needs of an alphabet.\<close>

definition alphabet_ok :: "string \<Rightarrow> bool" where
  "alphabet_ok al = (distinct al \<and> length al = 64 \<and> CHR ''='' \<notin> set al)"

text \<open>
  \<open>base64.encodebytes\<close> (and \<open>email.base64mime.body_encode\<close>): each run of 57 bytes is
  encoded on a line of its own.
\<close>

function encodebytes :: "string \<Rightarrow> string" where
  "encodebytes bytes =
     (if bytes = [] then []
      else b64encode standard_alphabet (take 57 bytes) @ [CHR 0x0A] @ encodebytes (drop 57 bytes))"
  by pat_completeness auto
termination
  by (relation "measure length") auto

declare encodebytes.simps [simp del]

section \<open>MIME messages\<close>

text \<open>
  The message objects of the standard \<open>email\<close> package, as far as the composer uses them.
  A header is a name and a value, kept in the order of insertion with the name as written.
  A leaf part holds its payload as text; \<open>Escaped\<close> is a payload set from bytes that are
  not all ASCII (the package keeps them as escaped code points).
\<close>

type_synonym header = "string \<times> string"

datatype payload = Str string | Escaped string

record message =
  headers :: "header list"
  body :: payload

record multipart =
  mp_headers :: "header list"
  mp_parts :: "message list"

text \<open>
  What the composer takes from outside the repository and this model leaves open:
  \<open>mimetypes.guess_type\<close> (its tables are read from the host), the boundary the generator
  draws at random (given the text of the parts), the header encoder on values it does not
  copy through, the RFC 2231 encoding of a non-ASCII parameter value, and the generator
  on a part it does not write as plain text.
\<close>

record mime_lib =
  guess_type :: "string \<Rightarrow> string option \<times> string option"
  make_boundary :: "string \<Rightarrow> string"
  header_encode :: "string \<Rightarrow> string \<Rightarrow> exc + string"
  encode_rfc2231 :: "string \<Rightarrow> string"
  flatten_other :: "message \<Rightarrow> exc + string"

subsection \<open>Constructors of the package\<close>

text \<open>\<open>utils.quote\<close>: backslashes and double quotes are escaped.\<close>

fun quote :: "string \<Rightarrow> string" where
  "quote [] = []"
| "quote (c # cs) =
     (if c = CHR 0x5C \<or> c = CHR 0x22 then CHR 0x5C # c # quote cs else c # quote cs)"

text \<open>\<open>_formatparam(param, value)\<close> with quoting on.\<close>

definition formatparam :: "mime_lib \<Rightarrow> string \<Rightarrow> string \<Rightarrow> string" where
  "formatparam lib param v =
     (if v = [] then param
      else if is_ascii v then param @ [CHR ''='', CHR 0x22] @ quote v @ [CHR 0x22]
      else param @ ''*='' @ encode_rfc2231 lib v)"

text \<open>\<open>msg.add_header(name, value, key=v)\<close> with one parameter; \<open>msg[name] = value\<close>.\<close>

definition add_header :: "mime_lib \<Rightarrow> string \<Rightarrow> string \<Rightarrow> string \<Rightarrow> string \<Rightarrow> message \<Rightarrow> message" where
  "add_header lib name v key kv m =
     m\<lparr>headers := headers m @ [(name, v @ ''; '' @ formatparam lib key kv)]\<rparr>"

definition set_item :: "string \<Rightarrow> string \<Rightarrow> multipart \<Rightarrow> multipart" where
  "set_item name v m = m\<lparr>mp_headers := mp_headers m @ [(name, v)]\<rparr>"

definition attach :: "message \<Rightarrow> multipart \<Rightarrow> multipart" where
  "attach part m = m\<lparr>mp_parts := mp_parts m @ [part]\<rparr>"

text \<open>\<open>MIMEMultipart()\<close>\<close>

definition MIMEMultipart :: multipart where
  "MIMEMultipart =
     \<lparr>mp_headers = [(''Content-Type'', ''multipart/mixed''), (''MIME-Version'', ''1.0'')],
      mp_parts = []\<rparr>"

text \<open>
  \<open>MIMEText(_text, _subtype)\<close>. With no charset given the constructor first calls
  \<open>_text.encode('us-ascii')\<close>; a \<open>bytes\<close> object has no such method. ASCII text is kept
  as it is (7bit); other text is sent as UTF-8 in base64.
\<close>

fun MIMEText :: "py_data \<Rightarrow> string \<Rightarrow> exc + message" where
  "MIMEText (Py_bytes b) sub =
     Inl (AttributeError ''bytes object has no attribute encode'')"
| "MIMEText (Py_str t) sub =
     (if is_ascii t then
        Inr \<lparr>headers = [(''Content-Type'', ''text/'' @ sub @ ''; charset='' @ [CHR 0x22] @ ''us-ascii'' @ [CHR 0x22]),
                         (''MIME-Version'', ''1.0''),
                         (''Content-Transfer-Encoding'', ''7bit'')],
             body = Str t\<rparr>
      else
        Inr \<lparr>headers = [(''Content-Type'', ''text/'' @ sub @ ''; charset='' @ [CHR 0x22] @ ''utf-8'' @ [CHR 0x22]),
                         (''MIME-Version'', ''1.0''),
                         (''Content-Transfer-Encoding'', ''base64'')],
             body = Str (encodebytes t)\<rparr>)"

text \<open>
  The part \<open>MIMEText\<close> makes of ASCII text with the subtype \<open>plain\<close>, and the lines the
  generator writes for its headers.
\<close>

definition plain_part :: "string \<Rightarrow> message" where
  "plain_part t =
     \<lparr>headers = [(''Content-Type'', ''text/plain; charset='' @ [CHR 0x22] @ ''us-ascii'' @ [CHR 0x22]),
                  (''MIME-Version'', ''1.0''),
                  (''Content-Transfer-Encoding'', ''7bit'')],
      body = Str t\<rparr>"

definition plain_part_lines :: string where
  "plain_part_lines =
     ''Content-Type: text/plain; charset='' @ [CHR 0x22] @ ''us-ascii'' @ [CHR 0x22]
     @ ''\<newline>MIME-Version: 1.0\<newline>Content-Transfer-Encoding: 7bit\<newline>''"

text \<open>
  \<open>MIMEImage\<close>, \<open>MIMEAudio\<close> and \<open>MIMEApplication\<close> with the subtype given: the bytes are
  encoded in base64.
\<close>

definition MIME_base64 :: "string \<Rightarrow> string \<Rightarrow> string \<Rightarrow> message" where
  "MIME_base64 main sub bytes =
     \<lparr>headers = [(''Content-Type'', main @ ''/'' @ sub),
                  (''MIME-Version'', ''1.0''),
                  (''Content-Transfer-Encoding'', ''base64'')],
      body = Str (encodebytes bytes)\<rparr>"

definition MIMEImage :: "string \<Rightarrow> string \<Rightarrow> message" where
  "MIMEImage bytes sub = MIME_base64 ''image'' sub bytes"

definition MIMEAudio :: "string \<Rightarrow> string \<Rightarrow> message" where
  "MIMEAudio bytes sub = MIME_base64 ''audio'' sub bytes"

definition MIMEApplication :: "string \<Rightarrow> string \<Rightarrow> message" where
  "MIMEApplication bytes sub = MIME_base64 ''application'' sub bytes"

text \<open>\<open>MIMEBase(main, sub)\<close> followed by \<open>set_payload(bytes)\<close>: no transfer encoding.\<close>

definition MIMEBase_with_payload :: "string \<Rightarrow> string \<Rightarrow> string \<Rightarrow> message" where
  "MIMEBase_with_payload main sub bytes =
     \<lparr>headers = [(''Content-Type'', main @ ''/'' @ sub), (''MIME-Version'', ''1.0'')],
      body = (if is_ascii bytes then Str bytes else Escaped bytes)\<rparr>"

subsection \<open>The generator: \<open>as_string\<close>\<close>

text \<open>
  \<open>as_string\<close> writes headers unwrapped (its maximal header length is 0, no limit below a
  million characters). A value of printable ASCII that neither starts nor ends with a
  space is copied through; every other value is left to \<open>header_encode\<close>.
\<close>

definition copied_through :: "string \<Rightarrow> string \<Rightarrow> bool" where
  "copied_through name v =
     (list_all printable v \<and> length name + 2 + length v \<le> 1000000 \<and>
      (v = [] \<or> (hd v \<noteq> CHR '' '' \<and> last v \<noteq> CHR '' '')))"

definition fold_header :: "mime_lib \<Rightarrow> header \<Rightarrow> exc + string" where
  "fold_header lib h =
     (case h of (name, v) \<Rightarrow>
        if copied_through name v then Inr (name @ '': '' @ v @ [CHR 0x0A])
        else (case header_encode lib name v of
                Inl e \<Rightarrow> Inl e
              | Inr v' \<Rightarrow> Inr (name @ '': '' @ v' @ [CHR 0x0A])))"

fun write_headers :: "mime_lib \<Rightarrow> header list \<Rightarrow> exc + string" where
  "write_headers lib [] = Inr []"
| "write_headers lib (h # hs) =
     (case fold_header lib h of
        Inl e \<Rightarrow> Inl e
      | Inr l \<Rightarrow> (case write_headers lib hs of
                    Inl e \<Rightarrow> Inl e
                  | Inr ls \<Rightarrow> Inr (l @ ls)))"

text \<open>Text payloads are written line by line: \<open>\r\n\<close> and \<open>\r\<close> become \<open>\n\<close>.\<close>

fun write_lines :: "string \<Rightarrow> string" where
  "write_lines [] = []"
| "write_lines [c] = (if c = CHR 0x0D then [CHR 0x0A] else [c])"
| "write_lines (c # d # s) =
     (if c = CHR 0x0D then
        (if d = CHR 0x0A then CHR 0x0A # write_lines s else CHR 0x0A # write_lines (d # s))
      else c # write_lines (d # s))"

text \<open>
  The generator picks the handler of a part from its content type. Parts whose type starts
  with one of these prefixes are written as text; the others are left to \<open>flatten_other\<close>.
\<close>

definition written_as_text :: "message \<Rightarrow> bool" where
  "written_as_text m =
     (case map_of (headers m) ''Content-Type'' of
        None \<Rightarrow> False
      | Some ct \<Rightarrow> prefix ''text/'' ct \<or> prefix ''image/'' ct \<or> prefix ''audio/'' ct
                   \<or> prefix ''application/'' ct)"

definition write_body :: "mime_lib \<Rightarrow> message \<Rightarrow> exc + string" where
  "write_body lib m =
     (case body m of
        Str s \<Rightarrow> if written_as_text m then Inr (write_lines s) else flatten_other lib m
      | Escaped b \<Rightarrow> flatten_other lib m)"

text \<open>One part: the body is generated first, then the headers and a blank line before it.\<close>

definition flatten_part :: "mime_lib \<Rightarrow> message \<Rightarrow> exc + string" where
  "flatten_part lib m =
     (case write_body lib m of
        Inl e \<Rightarrow> Inl e
      | Inr b \<Rightarrow> (case write_headers lib (headers m) of
                    Inl e \<Rightarrow> Inl e
                  | Inr hs \<Rightarrow> Inr (hs @ [CHR 0x0A] @ b)))"

fun flatten_parts :: "mime_lib \<Rightarrow> message list \<Rightarrow> exc + string list" where
  "flatten_parts lib [] = Inr []"
| "flatten_parts lib (m # ms) =
     (case flatten_part lib m of
        Inl e \<Rightarrow> Inl e
      | Inr t \<Rightarrow> (case flatten_parts lib ms of
                    Inl e \<Rightarrow> Inl e
                  | Inr ts \<Rightarrow> Inr (t # ts)))"

text \<open>\<open>set_boundary\<close>: the boundary becomes a parameter of the Content-Type header.\<close>

definition set_boundary :: "string \<Rightarrow> header list \<Rightarrow> header list" where
  "set_boundary b hs =
     map (\<lambda>(name, v). if name = ''Content-Type''
                        then (name, v @ ''; boundary='' @ [CHR 0x22] @ b @ [CHR 0x22])
                        else (name, v)) hs"

text \<open>The parts between the delimiter lines.\<close>

definition multipart_body :: "string \<Rightarrow> string list \<Rightarrow> string" where
  "multipart_body b texts =
     ''--'' @ b @ [CHR 0x0A]
     @ join ([CHR 0x0A] @ ''--'' @ b @ [CHR 0x0A]) texts
     @ [CHR 0x0A] @ ''--'' @ b @ ''--'' @ [CHR 0x0A]"

text \<open>The header block of the container, once the boundary \<open>b\<close> is set.\<close>

definition header_block :: "mime_lib \<Rightarrow> string \<Rightarrow> multipart \<Rightarrow> exc + string" where
  "header_block lib b m = write_headers lib (set_boundary b (mp_headers m))"

text \<open>
  \<open>email_msg.as_string()\<close>: the parts are generated first, the boundary is drawn for
  their text, then the header block, a blank line and the delimited parts are written.
\<close>

definition as_string :: "mime_lib \<Rightarrow> multipart \<Rightarrow> exc + string" where
  "as_string lib m =
     (case flatten_parts lib (mp_parts m) of
        Inl e \<Rightarrow> Inl e
      | Inr texts \<Rightarrow>
          (let b = make_boundary lib (join [CHR 0x0A] texts) in
           case header_block lib b m of
             Inl e \<Rightarrow> Inl e
           | Inr hs \<Rightarrow> Inr (hs @ [CHR 0x0A] @ multipart_body b texts)))"

section \<open>Message composer\<close>

text \<open>
  Lines 206-211 of \<open>encode_attachment_for_email\<close>: the guessed type, the fallback to the
  generic binary type when nothing was guessed or an encoding was, then the \<open>.xlsx\<close>
  override.
\<close>

definition resolve_content_type :: "mime_lib \<Rightarrow> string \<Rightarrow> string" where
  "resolve_content_type lib attachment_filename =
     (let content_type =
            (case guess_type lib attachment_filename of
               (Some ct, None) \<Rightarrow> ct
             | _ \<Rightarrow> ''application/octet-stream'')
      in if endswith attachment_filename ''.xlsx'' then ''application/vnd-xls''
         else content_type)"

text \<open>
  \<open>encode_attachment_for_email\<close>, lines 194-227. The unpacking of \<open>content_type.split("/")\<close>
  into two names raises unless there are exactly two pieces; the file is opened after
  that, in binary mode, so every branch reads \<open>bytes\<close>.
\<close>

definition encode_attachment_for_email :: "filesystem \<Rightarrow> mime_lib \<Rightarrow> string \<Rightarrow> exc + message" where
  "encode_attachment_for_email disk lib attachment_filename =
     (case split_char CHR ''/'' (resolve_content_type lib attachment_filename) of
        [main_type, sub_type] \<Rightarrow>
          (case open_rb disk attachment_filename of
             Inl e \<Rightarrow> Inl e
           | Inr bytes \<Rightarrow>
               if main_type = ''text'' then MIMEText (Py_bytes bytes) sub_type
               else if main_type = ''image'' then Inr (MIMEImage bytes sub_type)
               else if main_type = ''audio'' then Inr (MIMEAudio bytes sub_type)
               else if sub_type = ''vnd-xls'' then Inr (MIMEApplication bytes sub_type)
               else Inr (MIMEBase_with_payload main_type sub_type bytes))
      | _ \<Rightarrow> Inl (ValueError ''unpack''))"

text \<open>The loop of lines 184-189, over the attachment names in the order given.\<close>

fun attach_all :: "filesystem \<Rightarrow> mime_lib \<Rightarrow> string list \<Rightarrow> multipart \<Rightarrow> exc + multipart" where
  "attach_all disk lib [] email_msg = Inr email_msg"
| "attach_all disk lib (attachment_filename # rest) email_msg =
     (case encode_attachment_for_email disk lib attachment_filename of
        Inl e \<Rightarrow> Inl e
      | Inr attachment \<Rightarrow>
          attach_all disk lib rest
            (attach (add_header lib ''Content-Disposition'' ''attachment''
                       ''filename'' attachment_filename attachment) email_msg))"

text \<open>Lines 173-178: the container and its five headers.\<close>

definition email_metadata ::
  "string \<Rightarrow> string \<Rightarrow> string list \<Rightarrow> string list \<Rightarrow> string list \<Rightarrow> multipart" where
  "email_metadata email_from email_subject email_to email_cc email_bcc =
     set_item ''bcc'' (if email_bcc = [] then [] else join '', '' email_bcc)
       (set_item ''cc'' (if email_cc = [] then [] else join '', '' email_cc)
         (set_item ''to'' (join '', '' email_to)
           (set_item ''from'' email_from
             (set_item ''subject'' email_subject MIMEMultipart))))"

text \<open>Lines 173-189: the message object before it is serialised.\<close>

definition build_email_msg ::
  "filesystem \<Rightarrow> mime_lib \<Rightarrow> string \<Rightarrow> string \<Rightarrow> string \<Rightarrow> string list \<Rightarrow> string list
     \<Rightarrow> string list \<Rightarrow> string list \<Rightarrow> exc + multipart" where
  "build_email_msg disk lib email_from email_subject email_body email_to email_cc email_bcc
       email_attachments =
     (case MIMEText (Py_str email_body) ''plain'' of
        Inl e \<Rightarrow> Inl e
      | Inr text_part \<Rightarrow>
          attach_all disk lib email_attachments
            (attach text_part
               (email_metadata email_from email_subject email_to email_cc email_bcc)))"

text \<open>\<open>build_msg_obj\<close>, lines 143-191. The result is the dictionary with the key \<open>raw\<close>.\<close>

definition build_msg_obj ::
  "filesystem \<Rightarrow> mime_lib \<Rightarrow> string \<Rightarrow> string \<Rightarrow> string \<Rightarrow> string list \<Rightarrow> string list
     \<Rightarrow> string list \<Rightarrow> string list \<Rightarrow> exc + (string \<times> string) list" where
  "build_msg_obj disk lib email_from email_subject email_body email_to email_cc email_bcc
       email_attachments =
     (case build_email_msg disk lib email_from email_subject email_body email_to email_cc
             email_bcc email_attachments of
        Inl e \<Rightarrow> Inl e
      | Inr email_msg \<Rightarrow>
          (case as_string lib email_msg of
             Inl e \<Rightarrow> Inl e
           | Inr s \<Rightarrow> Inr [(''raw'', urlsafe_b64encode s)]))"

subsection \<open>The default arguments\<close>

text \<open>
  The three \<open>[]\<close> defaults of the signature are list objects made once, when the function
  is defined, and shared by every call that omits the argument. They are state: a call
  takes the current default objects and returns them as it leaves them. The body only
  tests, joins and iterates over the lists.
\<close>

record default_args =
  default_cc :: "string list"
  default_bcc :: "string list"
  default_attachments :: "string list"

definition initial_defaults :: default_args where
  "initial_defaults = \<lparr>default_cc = [], default_bcc = [], default_attachments = []\<rparr>"

definition argument :: "'a \<Rightarrow> 'a option \<Rightarrow> 'a" where
  "argument dflt given = (case given of None \<Rightarrow> dflt | Some v \<Rightarrow> v)"

definition call_build_msg_obj ::
  "default_args \<Rightarrow> filesystem \<Rightarrow> mime_lib \<Rightarrow> string \<Rightarrow> string \<Rightarrow> string \<Rightarrow> string list
     \<Rightarrow> string list option \<Rightarrow> string list option \<Rightarrow> string list option
     \<Rightarrow> (exc + (string \<times> string) list) \<times> default_args" where
  "call_build_msg_obj d disk lib email_from email_subject email_body email_to cc bcc att =
     (build_msg_obj disk lib email_from email_subject email_body email_to
        (argument (default_cc d) cc) (argument (default_bcc d) bcc)
        (argument (default_attachments d) att),
      d)"

text \<open>The same call, stopped before line 191, to look at the message object.\<close>

definition call_build_email_msg ::
  "default_args \<Rightarrow> filesystem \<Rightarrow> mime_lib \<Rightarrow> string \<Rightarrow> string \<Rightarrow> string \<Rightarrow> string list
     \<Rightarrow> string list option \<Rightarrow> string list option \<Rightarrow> string list option
     \<Rightarrow> (exc + multipart) \<times> default_args" where
  "call_build_email_msg d disk lib email_from email_subject email_body email_to cc bcc att =
     (build_email_msg disk lib email_from email_subject email_body email_to
        (argument (default_cc d) cc) (argument (default_bcc d) bcc)
        (argument (default_attachments d) att),
      d)"

section \<open>A concrete host\<close>

text \<open>
  One host to run the helpers on: a type guesser with the usual entries for four
  extensions, a fixed boundary of the generator's shape, and a disk with four files.
\<close>

definition example_guess_type :: "string \<Rightarrow> string option \<times> string option" where
  "example_guess_type name =
     (if endswith name ''.png'' then (Some ''image/png'', None)
      else if endswith name ''.txt'' then (Some ''text/plain'', None)
      else if endswith name ''.xlsx'' then
        (Some ''application/vnd.openxmlformats-officedocument.spreadsheetml.sheet'', None)
      else if endswith name ''.gz'' then (None, Some ''gzip'')
      else (None, None))"

definition example_mime_lib :: mime_lib where
  "example_mime_lib =
     \<lparr>guess_type = example_guess_type,
      make_boundary = (\<lambda>text. ''===============0123456789012345678==''),
      header_encode = (\<lambda>name v. Inr v),
      encode_rfc2231 = (\<lambda>v. ''utf-8'' @ [CHR 0x27, CHR 0x27] @ v),
      flatten_other =
        (\<lambda>m. case body m of
                Str s \<Rightarrow> Inr s
              | Escaped b \<Rightarrow> Inl (UnicodeEncodeError ''surrogates not allowed''))\<rparr>"

definition example_disk :: filesystem where
  "example_disk =
     \<lparr>files = [''notes.txt'' \<mapsto> ''remember'', ''photo.png'' \<mapsto> ''PNG'',
               ''report.xlsx'' \<mapsto> ''PK'', ''data.bin'' \<mapsto> ''0101''],
      can_read = (\<lambda>p. True),
      can_write = (\<lambda>p. True),
      parent_exists = (\<lambda>p. True)\<rparr>"

text \<open>The boundary this host draws.\<close>

definition example_boundary :: string where
  "example_boundary = ''===============0123456789012345678==''"

text \<open>The same disk with another picture under the same name.\<close>

definition example_disk2 :: filesystem where
  "example_disk2 = example_disk\<lparr>files := (files example_disk)(''photo.png'' \<mapsto> ''PNG2'')\<rparr>"

text \<open>The part \<open>MIMEText("Hello", "plain")\<close>.\<close>

definition hello_part :: message where
  "hello_part =
     \<lparr>headers = [(''Content-Type'', ''text/plain; charset='' @ [CHR 0x22] @ ''us-ascii'' @ [CHR 0x22]),
                  (''MIME-Version'', ''1.0''),
                  (''Content-Transfer-Encoding'', ''7bit'')],
      body = Str ''Hello''\<rparr>"

text \<open>
  The text the generator writes on this host for that part, and for a message with that
  part alone, given the five lines of the composer's headers.
\<close>

definition hello_part_text :: string where
  "hello_part_text =
     ''Content-Type: text/plain; charset='' @ [CHR 0x22] @ ''us-ascii'' @ [CHR 0x22]
     @ ''\<newline>MIME-Version: 1.0\<newline>Content-Transfer-Encoding: 7bit\<newline>\<newline>Hello''"

definition wire_text :: "string \<Rightarrow> string" where
  "wire_text header_lines =
     ''Content-Type: multipart/mixed; boundary='' @ [CHR 0x22] @ example_boundary @ [CHR 0x22]
     @ ''\<newline>MIME-Version: 1.0\<newline>'' @ header_lines
     @ ''\<newline>--'' @ example_boundary @ ''\<newline>'' @ hello_part_text
     @ ''\<newline>--'' @ example_boundary @ ''--\<newline>''"

text \<open>
  The auth packages of the same host. The home directory is \<open>/home/user\<close>. A credential
  is pickled as its three fields, the refresh token behind its length in tally marks, and
  unpickled from exactly that form. The credentials file is accepted when it holds the
  client secrets of an installed application, the user completes the interactive flow,
  and the provider accepts a refresh.
\<close>

definition stale_refreshable :: credentials where
  "stale_refreshable = \<lparr>expired = True, refresh_token = Some ''r1'', access_token = ''old''\<rparr>"

definition stale_final :: credentials where
  "stale_final = \<lparr>expired = True, refresh_token = None, access_token = ''old''\<rparr>"

definition fresh :: credentials where
  "fresh = \<lparr>expired = False, refresh_token = Some ''r1'', access_token = ''live''\<rparr>"

definition granted :: credentials where
  "granted = \<lparr>expired = False, refresh_token = Some ''r2'', access_token = ''new''\<rparr>"

definition renewed :: credentials where
  "renewed = \<lparr>expired = False, refresh_token = Some ''r1'', access_token = ''renewed''\<rparr>"

definition example_pickle_dump :: "credentials \<Rightarrow> string" where
  "example_pickle_dump c =
     ''pickle:'' @ (if expired c then ''E'' else ''V'')
     @ (case refresh_token c of
          None \<Rightarrow> ''N''
        | Some r \<Rightarrow> ''S'' @ replicate (length r) CHR ''|'' @ '':'' @ r)
     @ access_token c"

definition example_unpickle :: "string \<Rightarrow> exc + credentials option" where
  "example_unpickle t =
     (case t of
        e # k # rest \<Rightarrow>
          if (e = CHR ''E'' \<or> e = CHR ''V'') \<and> k = CHR ''N'' then
            Inr (Some \<lparr>expired = (e = CHR ''E''), refresh_token = None, access_token = rest\<rparr>)
          else if (e = CHR ''E'' \<or> e = CHR ''V'') \<and> k = CHR ''S'' then
            (let n = length (takeWhile (\<lambda>x. x = CHR ''|'') rest) in
             case drop n rest of
               sep # u \<Rightarrow>
                 if sep = CHR '':'' \<and> n \<le> length u then
                   Inr (Some \<lparr>expired = (e = CHR ''E''), refresh_token = Some (take n u),
                              access_token = drop n u\<rparr>)
                 else Inl (UnpicklingError ''invalid load key'')
             | [] \<Rightarrow> Inl (UnpicklingError ''pickle data was truncated''))
          else Inl (UnpicklingError ''invalid load key'')
      | _ \<Rightarrow> Inl (UnpicklingError ''pickle data was truncated''))"

definition example_pickle_load :: "string \<Rightarrow> exc + credentials option" where
  "example_pickle_load bytes =
     (if bytes = ''pickle:None'' then Inr None
      else if prefix ''pickle:'' bytes then example_unpickle (drop 7 bytes)
      else Inl (UnpicklingError ''invalid load key''))"

definition example_client_secrets :: string where
  \<open>example_client_secrets =
     ''{"installed": {"client_id": "example.apps.googleusercontent.com", ''
     @ ''"client_secret": "example-secret", ''
     @ ''"auth_uri": "https://accounts.google.com/o/oauth2/auth", ''
     @ ''"token_uri": "https://oauth2.googleapis.com/token", ''
     @ ''"redirect_uris": ["http://localhost"]}}''\<close>

definition example_auth_lib :: auth_lib where
  "example_auth_lib =
     \<lparr>expanduser = (\<lambda>p. if p = ''~'' then ''/home/user''
                        else if prefix ''~/'' p then ''/home/user'' @ drop 1 p else p),
      pickle_load = example_pickle_load,
      pickle_dump = example_pickle_dump,
      from_client_secrets =
        (\<lambda>secrets. if secrets = example_client_secrets then Inr secrets
                   else Inl (ValueError ''Client secrets must be for a web or installed app.'')),
      run_local_server = (\<lambda>flow. Inr granted),
      refresh = (\<lambda>c. Inr (c\<lparr>expired := False, access_token := ''renewed''\<rparr>))\<rparr>"

text \<open>
  Its disk: the directory \<open>/home/user/.gmail\<close> with the credentials file and, when
  \<open>token\<close> is given, a token cache holding those bytes.
\<close>

definition example_world :: "string option \<Rightarrow> world" where
  "example_world token =
     \<lparr>fs = \<lparr>files = (\<lambda>p. if p = ''/home/user/.gmail/gmail_credentials.json''
                           then Some example_client_secrets
                         else if p = ''/home/user/.gmail/gmail_token.pickle'' then token
                         else None),
             can_read = (\<lambda>p. True),
             can_write = (\<lambda>p. True),
             parent_exists = (\<lambda>p. prefix ''/home/user/.gmail/'' p)\<rparr>,
      trace = []\<rparr>"

definition example_service :: gmail_service where
  "example_service =
     \<lparr>requests = [],
      respond = (\<lambda>n body. Inl (LibraryError ''HttpError'' ''403 insufficient permission''))\<rparr>"

section \<open>Properties of the credential manager\<close>

text \<open>On the example host, unpickling gives back the credential that was pickled.\<close>

lemma takeWhile_tally:
  "x \<noteq> y \<Longrightarrow> takeWhile (\<lambda>c. c = x) (replicate n x @ y # ys) = replicate n x"
  by (induction n) simp_all

lemma example_unpickle_dumped:
  "example_unpickle
     ((if e then ''E'' else ''V'')
      @ (case r of None \<Rightarrow> ''N'' | Some t \<Rightarrow> ''S'' @ replicate (length t) CHR ''|'' @ '':'' @ t)
      @ a)
   = Inr (Some \<lparr>expired = e, refresh_token = r, access_token = a\<rparr>)"
proof (cases r)
  case None
  then show ?thesis by (cases e) (simp_all add: example_unpickle_def)
next
  case (Some t)
  have tw: "takeWhile (\<lambda>c. c = CHR ''|'') (replicate (length t) CHR ''|'' @ CHR '':'' # t @ a)
              = replicate (length t) CHR ''|''"
    by (rule takeWhile_tally) simp
  from Some show ?thesis
    by (cases e) (simp_all add: example_unpickle_def tw)
qed

lemma example_pickle_roundtrip:
  "example_pickle_load (example_pickle_dump c) = Inr (Some c)"
proof (cases c)
  case (fields e r a)
  have "example_pickle_dump c
          = ''pickle:'' @ ((if e then ''E'' else ''V'')
              @ (case r of None \<Rightarrow> ''N''
                 | Some t \<Rightarrow> ''S'' @ replicate (length t) CHR ''|'' @ '':'' @ t)
              @ a)"
    by (simp add: fields example_pickle_dump_def)
  moreover have "example_pickle_load (''pickle:'' @ ((if e then ''E'' else ''V'')
              @ (case r of None \<Rightarrow> ''N''
                 | Some t \<Rightarrow> ''S'' @ replicate (length t) CHR ''|'' @ '':'' @ t)
              @ a))
      = example_unpickle ((if e then ''E'' else ''V'')
              @ (case r of None \<Rightarrow> ''N''
                 | Some t \<Rightarrow> ''S'' @ replicate (length t) CHR ''|'' @ '':'' @ t)
              @ a)"
    by (cases e) (simp_all add: example_pickle_load_def)
  ultimately show ?thesis
    by (simp add: example_unpickle_dumped fields)
qed

text \<open>
  C1. Credential acquisition is the state machine of the specification, effect for
  effect. The token cache is read when its file exists; a failure to read or unpickle it
  is the result and nothing else happens. Otherwise the cached value is in one of four
  states, and the call makes the one transition of that state:
  absent, or expired without a refresh token: the interactive flow runs on the
  credentials file, and the credential it yields is written to the token cache file and
  returned;
  not expired: the cached credential is returned and nothing is written;
  expired with a refresh token: the credential is refreshed once, and the refreshed
  credential is written to the token cache file and returned.
  A failure of the flow, of the refresh or of the write is the result, with the files as
  they were. The result, the contents of every file and the order of the effects are
  those of the specification's machine for every library behaviour, disk and pair of
  paths, so there is no other transition.
\<close>

theorem get_gmail_credentials_state_machine:
  "get_gmail_credentials lib w gmail_credentials_file gmail_token_file =
     spec_get_credentials lib w
       (expanduser lib (expanduser lib gmail_credentials_file))
       (expanduser lib gmail_token_file)"
proof -
  have load: "load_token lib w tf = spec_cached lib w tf" for tf
    by (simp add: load_token_def spec_cached_def path_exists_def open_rb_def emit_def
        split: option.splits)
  have gen: "generate_gmail_token lib w1 cf = spec_interactive_auth lib w1 (expanduser lib cf)"
    for w1 cf
    by (simp add: generate_gmail_token_def spec_interactive_auth_def open_rb_def emit_def
        Let_def split: option.splits sum.splits)
  have refr: "refresh_credentials lib w1 c = spec_refresh lib w1 c" for w1 c
    by (simp add: refresh_credentials_def spec_refresh_def emit_def)
  have dump: "(case r of (Inl e, w2) \<Rightarrow> (Inl e, w2) | (Inr c, w2) \<Rightarrow> dump_token lib w2 tf c)
                = spec_persist lib tf r" for r tf
    by (auto simp: spec_persist_def dump_token_def open_wb_def emit_def
        split: prod.splits sum.splits option.splits)
  show ?thesis
  proof (cases "spec_cached lib w (expanduser lib gmail_token_file)")
    case (Pair r w1)
    show ?thesis
    proof (cases r)
      case (Inl e)
      with Pair show ?thesis
        by (simp add: get_gmail_credentials_def spec_get_credentials_def load)
    next
      case (Inr cached)
      show ?thesis
      proof (cases cached)
        case None
        with Pair Inr show ?thesis
          by (simp add: get_gmail_credentials_def spec_get_credentials_def load gen dump)
      next
        case (Some c)
        with Pair Inr show ?thesis
          by (simp add: get_gmail_credentials_def spec_get_credentials_def load gen refr dump)
      qed
    qed
  qed
qed

lemmas example_host_defs =
  example_world_def example_auth_lib_def example_pickle_load_def example_unpickle_def
  example_pickle_dump_def example_client_secrets_def
  stale_refreshable_def stale_final_def fresh_def granted_def renewed_def

lemmas spec_machine_defs =
  spec_get_credentials_def spec_cached_def spec_persist_def spec_interactive_auth_def
  spec_refresh_def

theorem get_gmail_credentials_state_machine_witness:
  "(case get_gmail_credentials example_auth_lib (example_world None)
           ''~/.gmail/gmail_credentials.json'' ''~/.gmail/gmail_token.pickle'' of
      (r, w') \<Rightarrow>
        r = Inr granted
        \<and> files (fs w') ''/home/user/.gmail/gmail_token.pickle'' = Some ''pickle:VS||:r2new''
        \<and> trace w' = [Interactive_Flow ''/home/user/.gmail/gmail_credentials.json'',
                       Dump_Token ''/home/user/.gmail/gmail_token.pickle'' granted])
   \<and> (case get_gmail_credentials example_auth_lib (example_world (Some ''pickle:VS||:r1live''))
           ''~/.gmail/gmail_credentials.json'' ''~/.gmail/gmail_token.pickle'' of
      (r, w') \<Rightarrow>
        r = Inr fresh
        \<and> files (fs w') ''/home/user/.gmail/gmail_token.pickle'' = Some ''pickle:VS||:r1live''
        \<and> trace w' = [Load_Token ''/home/user/.gmail/gmail_token.pickle''])
   \<and> (case get_gmail_credentials example_auth_lib (example_world (Some ''pickle:ES||:r1old''))
           ''~/.gmail/gmail_credentials.json'' ''~/.gmail/gmail_token.pickle'' of
      (r, w') \<Rightarrow>
        r = Inr renewed
        \<and> files (fs w') ''/home/user/.gmail/gmail_token.pickle''
            = Some ''pickle:VS||:r1renewed''
        \<and> trace w' = [Load_Token ''/home/user/.gmail/gmail_token.pickle'',
                       Refresh_Token stale_refreshable,
                       Dump_Token ''/home/user/.gmail/gmail_token.pickle'' renewed])
   \<and> (case get_gmail_credentials example_auth_lib (example_world (Some ''pickle:ENold''))
           ''~/.gmail/gmail_credentials.json'' ''~/.gmail/gmail_token.pickle'' of
      (r, w') \<Rightarrow>
        r = Inr granted
        \<and> files (fs w') ''/home/user/.gmail/gmail_token.pickle'' = Some ''pickle:VS||:r2new''
        \<and> trace w' = [Load_Token ''/home/user/.gmail/gmail_token.pickle'',
                       Interactive_Flow ''/home/user/.gmail/gmail_credentials.json'',
                       Dump_Token ''/home/user/.gmail/gmail_token.pickle'' granted])"
proof (intro conjI)
  show "case get_gmail_credentials example_auth_lib (example_world None)
           ''~/.gmail/gmail_credentials.json'' ''~/.gmail/gmail_token.pickle'' of
      (r, w') \<Rightarrow>
        r = Inr granted
        \<and> files (fs w') ''/home/user/.gmail/gmail_token.pickle'' = Some ''pickle:VS||:r2new''
        \<and> trace w' = [Interactive_Flow ''/home/user/.gmail/gmail_credentials.json'',
                       Dump_Token ''/home/user/.gmail/gmail_token.pickle'' granted]"
    unfolding get_gmail_credentials_state_machine
    by (simp add: spec_machine_defs example_host_defs Let_def)
  show "case get_gmail_credentials example_auth_lib (example_world (Some ''pickle:VS||:r1live''))
           ''~/.gmail/gmail_credentials.json'' ''~/.gmail/gmail_token.pickle'' of
      (r, w') \<Rightarrow>
        r = Inr fresh
        \<and> files (fs w') ''/home/user/.gmail/gmail_token.pickle'' = Some ''pickle:VS||:r1live''
        \<and> trace w' = [Load_Token ''/home/user/.gmail/gmail_token.pickle'']"
    unfolding get_gmail_credentials_state_machine
    by (simp add: spec_machine_defs example_host_defs Let_def)
  show "case get_gmail_credentials example_auth_lib (example_world (Some ''pickle:ES||:r1old''))
           ''~/.gmail/gmail_credentials.json'' ''~/.gmail/gmail_token.pickle'' of
      (r, w') \<Rightarrow>
        r = Inr renewed
        \<and> files (fs w') ''/home/user/.gmail/gmail_token.pickle''
            = Some ''pickle:VS||:r1renewed''
        \<and> trace w' = [Load_Token ''/home/user/.gmail/gmail_token.pickle'',
                       Refresh_Token stale_refreshable,
                       Dump_Token ''/home/user/.gmail/gmail_token.pickle'' renewed]"
    unfolding get_gmail_credentials_state_machine
    by (simp add: spec_machine_defs example_host_defs Let_def)
  show "case get_gmail_credentials example_auth_lib (example_world (Some ''pickle:ENold''))
           ''~/.gmail/gmail_credentials.json'' ''~/.gmail/gmail_token.pickle'' of
      (r, w') \<Rightarrow>
        r = Inr granted
        \<and> files (fs w') ''/home/user/.gmail/gmail_token.pickle'' = Some ''pickle:VS||:r2new''
        \<and> trace w' = [Load_Token ''/home/user/.gmail/gmail_token.pickle'',
                       Interactive_Flow ''/home/user/.gmail/gmail_credentials.json'',
                       Dump_Token ''/home/user/.gmail/gmail_token.pickle'' granted]"
    unfolding get_gmail_credentials_state_machine
    by (simp add: spec_machine_defs example_host_defs Let_def)
qed

text \<open>
  C4. When the token cache holds a credential that is expired and carries a refresh
  token, one call refreshes it: the run loads the cache, refreshes once, and, when the
  refresh succeeds and the cache can be written, writes the refreshed credential to the
  token cache file and returns it. Whatever the refresh answers, the interactive flow is
  not among the effects.
\<close>

theorem refresh_without_interactive_flow:
  assumes "files (fs w) (expanduser lib gmail_token_file) = Some bytes"
    and "can_read (fs w) (expanduser lib gmail_token_file)"
    and "pickle_load lib bytes = Inr (Some c)"
    and "expired c"
    and "truthy (refresh_token c)"
  shows "get_gmail_credentials lib w gmail_credentials_file gmail_token_file =
     (let tf = expanduser lib gmail_token_file in
      case refresh lib c of
        Inl e \<Rightarrow> (Inl e, w\<lparr>trace := trace w @ [Load_Token tf, Refresh_Token c]\<rparr>)
      | Inr c' \<Rightarrow>
          if can_write (fs w) tf then
            (Inr c',
             \<lparr>fs = (fs w)\<lparr>files := (files (fs w))(tf \<mapsto> pickle_dump lib c')\<rparr>,
              trace = trace w @ [Load_Token tf, Refresh_Token c, Dump_Token tf c']\<rparr>)
          else (Inl (PermissionError tf),
                w\<lparr>trace := trace w @ [Load_Token tf, Refresh_Token c]\<rparr>))"
  using assms
  by (simp add: get_gmail_credentials_def load_token_def path_exists_def open_rb_def
      refresh_credentials_def emit_def dump_token_def open_wb_def Let_def
      split: sum.splits)

theorem refresh_without_interactive_flow_witness:
  "files (fs (example_world (Some ''pickle:ES||:r1old'')))
       (expanduser example_auth_lib ''~/.gmail/gmail_token.pickle'')
     = Some ''pickle:ES||:r1old''
   \<and> can_read (fs (example_world (Some ''pickle:ES||:r1old'')))
       (expanduser example_auth_lib ''~/.gmail/gmail_token.pickle'')
   \<and> pickle_load example_auth_lib ''pickle:ES||:r1old'' = Inr (Some stale_refreshable)
   \<and> expired stale_refreshable
   \<and> truthy (refresh_token stale_refreshable)
   \<and> (case get_gmail_credentials example_auth_lib
            (example_world (Some ''pickle:ES||:r1old''))
            ''~/.gmail/gmail_credentials.json'' ''~/.gmail/gmail_token.pickle'' of
         (r, w') \<Rightarrow>
           r = Inr \<lparr>expired = False, refresh_token = Some ''r1'', access_token = ''renewed''\<rparr>
           \<and> files (fs w') ''/home/user/.gmail/gmail_token.pickle'' = Some ''pickle:VS||:r1renewed''
           \<and> trace w' =
               [Load_Token ''/home/user/.gmail/gmail_token.pickle'',
                Refresh_Token stale_refreshable,
                Dump_Token ''/home/user/.gmail/gmail_token.pickle''
                  \<lparr>expired = False, refresh_token = Some ''r1'', access_token = ''renewed''\<rparr>])"
proof -
  have h1: "files (fs (example_world (Some ''pickle:ES||:r1old'')))
       (expanduser example_auth_lib ''~/.gmail/gmail_token.pickle'')
     = Some ''pickle:ES||:r1old''"
    by (simp add: example_host_defs)
  have h2: "can_read (fs (example_world (Some ''pickle:ES||:r1old'')))
       (expanduser example_auth_lib ''~/.gmail/gmail_token.pickle'')"
    by (simp add: example_world_def)
  have h3: "pickle_load example_auth_lib ''pickle:ES||:r1old'' = Inr (Some stale_refreshable)"
    by (simp add: example_host_defs Let_def)
  have h4: "expired stale_refreshable" by (simp add: stale_refreshable_def)
  have h5: "truthy (refresh_token stale_refreshable)" by (simp add: stale_refreshable_def)
  show ?thesis
    using h1 h2 h3 h4 h5
      refresh_without_interactive_flow [OF h1 h2 h3 h4 h5,
        of "''~/.gmail/gmail_credentials.json''"]
    by (simp add: example_host_defs Let_def)
qed

text \<open>
  C10. When the token cache file exists, can be read and unpickles to a credential that
  is not expired, the call returns that credential and its only effect is the load: the
  file system (token cache and credentials file included) is the one it started with, and
  no interactive flow, refresh or write is among the effects.
\<close>

theorem not_expired_no_effects:
  assumes "files (fs w) (expanduser lib gmail_token_file) = Some bytes"
    and "can_read (fs w) (expanduser lib gmail_token_file)"
    and "pickle_load lib bytes = Inr (Some c)"
    and "\<not> expired c"
  shows "get_gmail_credentials lib w gmail_credentials_file gmail_token_file =
           (Inr c, w\<lparr>trace := trace w @ [Load_Token (expanduser lib gmail_token_file)]\<rparr>)"
  using assms
  by (simp add: get_gmail_credentials_def load_token_def path_exists_def open_rb_def emit_def)

theorem not_expired_no_effects_witness:
  "files (fs (example_world (Some ''pickle:VS||:r1live'')))
       (expanduser example_auth_lib ''~/.gmail/gmail_token.pickle'') = Some ''pickle:VS||:r1live''
   \<and> can_read (fs (example_world (Some ''pickle:VS||:r1live'')))
       (expanduser example_auth_lib ''~/.gmail/gmail_token.pickle'')
   \<and> pickle_load example_auth_lib ''pickle:VS||:r1live'' = Inr (Some fresh)
   \<and> \<not> expired fresh
   \<and> get_gmail_credentials example_auth_lib (example_world (Some ''pickle:VS||:r1live''))
         ''~/.gmail/gmail_credentials.json'' ''~/.gmail/gmail_token.pickle''
       = (Inr fresh,
          \<lparr>fs = fs (example_world (Some ''pickle:VS||:r1live'')),
           trace = [Load_Token ''/home/user/.gmail/gmail_token.pickle'']\<rparr>)"
proof -
  have h1: "files (fs (example_world (Some ''pickle:VS||:r1live'')))
       (expanduser example_auth_lib ''~/.gmail/gmail_token.pickle'') = Some ''pickle:VS||:r1live''"
    by (simp add: example_host_defs)
  have h2: "can_read (fs (example_world (Some ''pickle:VS||:r1live'')))
       (expanduser example_auth_lib ''~/.gmail/gmail_token.pickle'')"
    by (simp add: example_world_def)
  have h3: "pickle_load example_auth_lib ''pickle:VS||:r1live'' = Inr (Some fresh)"
    by (simp add: example_host_defs Let_def)
  have h4: "\<not> expired fresh" by (simp add: fresh_def)
  show ?thesis
    using h1 h2 h3 h4
      not_expired_no_effects [OF h1 h2 h3 h4, of "''~/.gmail/gmail_credentials.json''"]
    by (simp add: example_host_defs Let_def)
qed

section \<open>Properties of the sender\<close>

text \<open>
  C7. When the send call raises an error (an exception deriving from \<open>Exception\<close>), the
  sender has submitted exactly one request, has logged one record at error level whose
  message ends with the text of the error and which carries the error, and the result is
  that same error.
\<close>

theorem send_email_reraises:
  assumes "respond svc (length (requests svc)) email_msg = Inl err"
    and "is_Exception err"
  shows "send_email svc email_msg log =
           (Inl err,
            svc\<lparr>requests := requests svc @ [email_msg]\<rparr>,
            log @ [(INFO, ''Sending Email through Gmail'', None),
                   (ERROR, ''Error: unable to send email through gmail: '' @ str_exc err,
                    Some err)])"
  using assms by (simp add: send_email_def execute_send_def)

theorem send_email_reraises_witness:
  "respond example_service (length (requests example_service)) [(''raw'', ''SGVsbG8='')]
     = Inl (LibraryError ''HttpError'' ''403 insufficient permission'')
   \<and> is_Exception (LibraryError ''HttpError'' ''403 insufficient permission'')
   \<and> send_email example_service [(''raw'', ''SGVsbG8='')] [] =
       (Inl (LibraryError ''HttpError'' ''403 insufficient permission''),
        example_service\<lparr>requests := [[(''raw'', ''SGVsbG8='')]]\<rparr>,
        [(INFO, ''Sending Email through Gmail'', None),
         (ERROR, ''Error: unable to send email through gmail: 403 insufficient permission'',
          Some (LibraryError ''HttpError'' ''403 insufficient permission''))])"
proof -
  have h1: "respond example_service (length (requests example_service)) [(''raw'', ''SGVsbG8='')]
     = Inl (LibraryError ''HttpError'' ''403 insufficient permission'')"
    by (simp add: example_service_def)
  have h2: "is_Exception (LibraryError ''HttpError'' ''403 insufficient permission'')"
    by simp
  show ?thesis
    using h1 h2 send_email_reraises [OF h1 h2, of "[]"]
    by (simp add: example_service_def)
qed

section \<open>Properties of the composer\<close>

subsection \<open>Content types of attachments\<close>

lemma split_char_vnd_xls:
  "split_char CHR ''/'' ''application/vnd-xls'' = [''application'', ''vnd-xls'']"
  by simp

lemma split_char_image_png:
  "split_char CHR ''/'' ''image/png'' = [''image'', ''png'']"
  by simp

text \<open>
  C5. A file whose name ends in \<open>.xlsx\<close> resolves to the fixed type
  \<open>application/vnd-xls\<close> whatever the type guesser returns for it (a type, nothing, or an
  encoding, which would first select the generic binary type), and when the file can be
  read the attachment is the base64 application part with that content type. With the
  guesser's standard entry for \<open>.png\<close>, \<open>photo.png\<close> resolves to \<open>image/png\<close> and is
  attached as an image part.
\<close>

theorem xlsx_override_and_png:
  "(endswith attachment_filename ''.xlsx'' \<longrightarrow>
      resolve_content_type lib attachment_filename = ''application/vnd-xls''
      \<and> (\<forall>bytes. open_rb disk attachment_filename = Inr bytes \<longrightarrow>
             encode_attachment_for_email disk lib attachment_filename
               = Inr (MIMEApplication bytes ''vnd-xls'')
             \<and> map_of (headers (MIMEApplication bytes ''vnd-xls'')) ''Content-Type''
               = Some ''application/vnd-xls''))
   \<and> (guess_type lib ''photo.png'' = (Some ''image/png'', None) \<longrightarrow>
        resolve_content_type lib ''photo.png'' = ''image/png''
        \<and> (\<forall>bytes. open_rb disk ''photo.png'' = Inr bytes \<longrightarrow>
               encode_attachment_for_email disk lib ''photo.png''
                 = Inr (MIMEImage bytes ''png'')))"
proof (intro conjI impI allI)
  assume x: "endswith attachment_filename ''.xlsx''"
  then show r: "resolve_content_type lib attachment_filename = ''application/vnd-xls''"
    by (simp add: resolve_content_type_def)
  fix bytes
  assume "open_rb disk attachment_filename = Inr bytes"
  with r show "encode_attachment_for_email disk lib attachment_filename
               = Inr (MIMEApplication bytes ''vnd-xls'')"
    by (simp add: encode_attachment_for_email_def)
  show "map_of (headers (MIMEApplication bytes ''vnd-xls'')) ''Content-Type''
               = Some ''application/vnd-xls''"
    by (simp add: MIMEApplication_def MIME_base64_def)
next
  assume g: "guess_type lib ''photo.png'' = (Some ''image/png'', None)"
  then show r: "resolve_content_type lib ''photo.png'' = ''image/png''"
    by (simp add: resolve_content_type_def endswith_def)
  fix bytes
  assume "open_rb disk ''photo.png'' = Inr bytes"
  with r show "encode_attachment_for_email disk lib ''photo.png''
                 = Inr (MIMEImage bytes ''png'')"
    by (simp add: encode_attachment_for_email_def)
qed

theorem xlsx_override_and_png_witness:
  "endswith ''report.xlsx'' ''.xlsx''
   \<and> guess_type example_mime_lib ''report.xlsx''
       = (Some ''application/vnd.openxmlformats-officedocument.spreadsheetml.sheet'', None)
   \<and> resolve_content_type example_mime_lib ''report.xlsx'' = ''application/vnd-xls''
   \<and> open_rb example_disk ''report.xlsx'' = Inr ''PK''
   \<and> encode_attachment_for_email example_disk example_mime_lib ''report.xlsx''
       = Inr (MIMEApplication ''PK'' ''vnd-xls'')
   \<and> guess_type example_mime_lib ''photo.png'' = (Some ''image/png'', None)
   \<and> open_rb example_disk ''photo.png'' = Inr ''PNG''
   \<and> encode_attachment_for_email example_disk example_mime_lib ''photo.png''
       = Inr (MIMEImage ''PNG'' ''png'')"
proof -
  have h1: "endswith ''report.xlsx'' ''.xlsx''" by (simp add: endswith_def)
  have h2: "open_rb example_disk ''report.xlsx'' = Inr ''PK''"
    by (simp add: open_rb_def example_disk_def)
  have h3: "guess_type example_mime_lib ''photo.png'' = (Some ''image/png'', None)"
    by (simp add: example_mime_lib_def example_guess_type_def endswith_def)
  have h4: "open_rb example_disk ''photo.png'' = Inr ''PNG''"
    by (simp add: open_rb_def example_disk_def)
  have h5: "guess_type example_mime_lib ''report.xlsx''
       = (Some ''application/vnd.openxmlformats-officedocument.spreadsheetml.sheet'', None)"
    by (simp add: example_mime_lib_def example_guess_type_def endswith_def)
  show ?thesis
    using h1 h2 h3 h4 h5
      xlsx_override_and_png [of "''report.xlsx''" example_mime_lib example_disk]
    by simp
qed

subsection \<open>Headers of the container\<close>

lemma attach_all_headers:
  "attach_all disk lib names m = Inr m' \<Longrightarrow> mp_headers m' = mp_headers m"
proof (induction names arbitrary: m)
  case Nil
  then show ?case by simp
next
  case (Cons n names)
  then show ?case
    by (auto simp: attach_def split: sum.splits)
qed

lemma join_empty_or: "(if xs = [] then [] else join sep xs) = join sep xs"
  by (cases xs) simp_all

lemma email_metadata_headers:
  "mp_headers (email_metadata email_from email_subject email_to email_cc email_bcc) =
     [(''Content-Type'', ''multipart/mixed''), (''MIME-Version'', ''1.0''),
      (''subject'', email_subject), (''from'', email_from),
      (''to'', join '', '' email_to), (''cc'', join '', '' email_cc),
      (''bcc'', join '', '' email_bcc)]"
  by (simp add: email_metadata_def set_item_def MIMEMultipart_def join_empty_or)

lemma build_email_msg_headers:
  assumes "build_email_msg disk lib email_from email_subject email_body email_to email_cc
             email_bcc email_attachments = Inr m"
  shows "mp_headers m =
           mp_headers (email_metadata email_from email_subject email_to email_cc email_bcc)"
  using assms
  by (auto simp: build_email_msg_def attach_def split: sum.splits dest!: attach_all_headers)

lemma write_headers_append:
  "write_headers lib (xs @ ys) =
     (case write_headers lib xs of
        Inl e \<Rightarrow> Inl e
      | Inr a \<Rightarrow> (case write_headers lib ys of Inl e \<Rightarrow> Inl e | Inr b \<Rightarrow> Inr (a @ b)))"
  by (induction xs) (auto split: sum.splits)

lemma fold_header_copied:
  "copied_through name v \<Longrightarrow> fold_header lib (name, v) = Inr (name @ '': '' @ v @ [CHR 0x0A])"
  by (simp add: fold_header_def)

lemma copied_through_address: "copied_through ''to'' ''a@x.com''"
  by (simp add: copied_through_def printable_def)

lemma copied_through_empty: "length name \<le> 100 \<Longrightarrow> copied_through name []"
  by (simp add: copied_through_def)

lemma recipient_lines:
  "write_headers lib [(''to'', ''a@x.com''), (''cc'', []), (''bcc'', [])]
     = Inr ''to: a@x.com\<newline>cc: \<newline>bcc: \<newline>''"
  by (simp add: fold_header_copied copied_through_address copied_through_empty)

lemma flatten_hello_part: "flatten_part lib hello_part = Inr hello_part_text"
  by (simp add: flatten_part_def write_body_def hello_part_def written_as_text_def
      fold_header_def copied_through_def printable_def hello_part_text_def)

lemma email_metadata_parts: "mp_parts (email_metadata f s t c b) = []"
  by (simp add: email_metadata_def set_item_def MIMEMultipart_def)

lemma example_container_lines:
  "write_headers lib
     ((''Content-Type'', ''multipart/mixed; boundary='' @ [CHR 0x22] @ example_boundary @ [CHR 0x22])
      # (''MIME-Version'', ''1.0'') # hs)
   = (case write_headers lib hs of
        Inl e \<Rightarrow> Inl e
      | Inr hl \<Rightarrow>
          Inr (''Content-Type: multipart/mixed; boundary='' @ [CHR 0x22] @ example_boundary
               @ [CHR 0x22] @ ''\<newline>MIME-Version: 1.0\<newline>'' @ hl))"
  by (simp add: fold_header_def copied_through_def printable_def example_boundary_def
      split: sum.splits)

lemma as_string_hello:
  assumes "write_headers example_mime_lib
             [(''subject'', s), (''from'', f), (''to'', join '', '' t),
              (''cc'', join '', '' c), (''bcc'', join '', '' b)] = Inr hl"
  shows "as_string example_mime_lib (attach hello_part (email_metadata f s t c b))
           = Inr (wire_text hl)"
proof -
  have parts: "flatten_parts example_mime_lib
                 (mp_parts (attach hello_part (email_metadata f s t c b)))
               = Inr [hello_part_text]"
    by (simp add: attach_def email_metadata_parts flatten_hello_part)
  have bnd: "make_boundary example_mime_lib (join [CHR 0x0A] [hello_part_text]) = example_boundary"
    by (simp add: example_mime_lib_def example_boundary_def)
  have hb: "header_block example_mime_lib example_boundary
              (attach hello_part (email_metadata f s t c b))
            = Inr (''Content-Type: multipart/mixed; boundary='' @ [CHR 0x22] @ example_boundary
               @ [CHR 0x22] @ ''\<newline>MIME-Version: 1.0\<newline>'' @ hl)"
  proof -
    have sb: "set_boundary example_boundary
                (mp_headers (attach hello_part (email_metadata f s t c b)))
              = (''Content-Type'', ''multipart/mixed; boundary='' @ [CHR 0x22] @ example_boundary @ [CHR 0x22])
                # (''MIME-Version'', ''1.0'')
                # [(''subject'', s), (''from'', f), (''to'', join '', '' t),
                   (''cc'', join '', '' c), (''bcc'', join '', '' b)]"
      by (simp add: attach_def email_metadata_headers set_boundary_def)
    show ?thesis
      unfolding header_block_def sb example_container_lines assms
      by simp
  qed
  show ?thesis
    unfolding as_string_def parts
    using bnd by (simp add: hb wire_text_def multipart_body_def)
qed


lemma example_fold_header:
  "fold_header example_mime_lib (name, v) = Inr (name @ '': '' @ v @ [CHR 0x0A])"
  by (simp add: fold_header_def example_mime_lib_def)

text \<open>
  C2 (amended). The composer sets the headers \<open>subject\<close>, \<open>from\<close>, \<open>to\<close>, \<open>cc\<close> and \<open>bcc\<close>
  under these lower-case names, after the two headers of the container; the values of
  \<open>to\<close>, \<open>cc\<close> and \<open>bcc\<close> are the address lists joined with a comma and a space, the
  empty string for an empty list. For To = [a@x.com] and empty Cc and Bcc, every header
  block written for the message ends with the three lines \<open>to: a@x.com\<close>, \<open>cc: \<close> and
  \<open>bcc: \<close>: the two empty headers are present.
\<close>

theorem composed_recipient_headers:
  assumes "build_email_msg disk lib email_from email_subject email_body email_to email_cc
             email_bcc email_attachments = Inr m"
  shows "mp_headers m =
           [(''Content-Type'', ''multipart/mixed''), (''MIME-Version'', ''1.0''),
            (''subject'', email_subject), (''from'', email_from),
            (''to'', join '', '' email_to), (''cc'', join '', '' email_cc),
            (''bcc'', join '', '' email_bcc)]
         \<and> (email_to = [''a@x.com''] \<and> email_cc = [] \<and> email_bcc = [] \<longrightarrow>
              (\<forall>lib' b hs. header_block lib' b m = Inr hs \<longrightarrow>
                 suffix ''to: a@x.com\<newline>cc: \<newline>bcc: \<newline>'' hs))"
proof (intro conjI impI allI)
  show h: "mp_headers m =
           [(''Content-Type'', ''multipart/mixed''), (''MIME-Version'', ''1.0''),
            (''subject'', email_subject), (''from'', email_from),
            (''to'', join '', '' email_to), (''cc'', join '', '' email_cc),
            (''bcc'', join '', '' email_bcc)]"
    using build_email_msg_headers [OF assms] by (simp add: email_metadata_headers)
  fix lib' b hs
  assume a: "email_to = [''a@x.com''] \<and> email_cc = [] \<and> email_bcc = []"
    and w: "header_block lib' b m = Inr hs"
  have "set_boundary b (mp_headers m) =
          [(''Content-Type'', ''multipart/mixed'' @ ''; boundary='' @ [CHR 0x22] @ b @ [CHR 0x22]),
           (''MIME-Version'', ''1.0''), (''subject'', email_subject), (''from'', email_from)]
          @ [(''to'', ''a@x.com''), (''cc'', []), (''bcc'', [])]"
    using a by (simp add: h set_boundary_def)
  with w obtain pre where "hs = pre @ ''to: a@x.com\<newline>cc: \<newline>bcc: \<newline>''"
    unfolding header_block_def
    by (auto simp only: write_headers_append recipient_lines split: sum.splits)
  then show "suffix ''to: a@x.com\<newline>cc: \<newline>bcc: \<newline>'' hs"
    by (simp add: suffix_def)
qed


theorem composed_recipient_headers_witness:
  "build_email_msg example_disk example_mime_lib ''s@x.com'' ''Hi'' ''Hello'' [''a@x.com'']
       [] [] []
     = Inr (attach hello_part (email_metadata ''s@x.com'' ''Hi'' [''a@x.com''] [] []))
   \<and> header_block example_mime_lib example_boundary
         (attach hello_part (email_metadata ''s@x.com'' ''Hi'' [''a@x.com''] [] []))
       = Inr (''Content-Type: multipart/mixed; boundary='' @ [CHR 0x22] @ example_boundary
              @ [CHR 0x22]
              @ ''\<newline>MIME-Version: 1.0\<newline>subject: Hi\<newline>from: s@x.com\<newline>to: a@x.com\<newline>cc: \<newline>bcc: \<newline>'')
   \<and> suffix ''to: a@x.com\<newline>cc: \<newline>bcc: \<newline>''
         (''Content-Type: multipart/mixed; boundary='' @ [CHR 0x22] @ example_boundary
          @ [CHR 0x22]
          @ ''\<newline>MIME-Version: 1.0\<newline>subject: Hi\<newline>from: s@x.com\<newline>to: a@x.com\<newline>cc: \<newline>bcc: \<newline>'')"
proof -
  have h1: "build_email_msg example_disk example_mime_lib ''s@x.com'' ''Hi'' ''Hello''
              [''a@x.com''] [] [] []
            = Inr (attach hello_part (email_metadata ''s@x.com'' ''Hi'' [''a@x.com''] [] []))"
    by (simp add: build_email_msg_def is_ascii_def hello_part_def)
  have h2: "header_block example_mime_lib example_boundary
         (attach hello_part (email_metadata ''s@x.com'' ''Hi'' [''a@x.com''] [] []))
       = Inr (''Content-Type: multipart/mixed; boundary='' @ [CHR 0x22] @ example_boundary
              @ [CHR 0x22]
              @ ''\<newline>MIME-Version: 1.0\<newline>subject: Hi\<newline>from: s@x.com\<newline>to: a@x.com\<newline>cc: \<newline>bcc: \<newline>'')"
    by (simp add: header_block_def attach_def email_metadata_headers set_boundary_def
        fold_header_def copied_through_def printable_def example_boundary_def)
  from composed_recipient_headers [OF h1] h2
  have "suffix ''to: a@x.com\<newline>cc: \<newline>bcc: \<newline>''
         (''Content-Type: multipart/mixed; boundary='' @ [CHR 0x22] @ example_boundary
          @ [CHR 0x22]
          @ ''\<newline>MIME-Version: 1.0\<newline>subject: Hi\<newline>from: s@x.com\<newline>to: a@x.com\<newline>cc: \<newline>bcc: \<newline>'')"
    by blast
  with h1 h2 show ?thesis by blast
qed

text \<open>
  C2 as stated fails on the header name: the text written for such a message has the line
  \<open>to: a@x.com\<close> and nowhere the text \<open>To: a@x.com\<close>.
\<close>

theorem to_header_counterexample:
  "build_msg_obj example_disk example_mime_lib ''s@x.com'' ''Hi'' ''Hello'' [''a@x.com'']
       [] [] []
     = Inr [(''raw'', urlsafe_b64encode
               (wire_text ''subject: Hi\<newline>from: s@x.com\<newline>to: a@x.com\<newline>cc: \<newline>bcc: \<newline>''))]
   \<and> \<not> sublist ''To: a@x.com''
         (wire_text ''subject: Hi\<newline>from: s@x.com\<newline>to: a@x.com\<newline>cc: \<newline>bcc: \<newline>'')"
proof
  have b: "build_email_msg example_disk example_mime_lib ''s@x.com'' ''Hi'' ''Hello''
              [''a@x.com''] [] [] []
            = Inr (attach hello_part (email_metadata ''s@x.com'' ''Hi'' [''a@x.com''] [] []))"
    by (simp add: build_email_msg_def is_ascii_def hello_part_def)
  have w: "write_headers example_mime_lib
             [(''subject'', ''Hi''), (''from'', ''s@x.com''), (''to'', join '', '' [''a@x.com'']),
              (''cc'', join '', '' []), (''bcc'', join '', '' [])]
           = Inr ''subject: Hi\<newline>from: s@x.com\<newline>to: a@x.com\<newline>cc: \<newline>bcc: \<newline>''"
    by (simp add: example_fold_header)
  show "build_msg_obj example_disk example_mime_lib ''s@x.com'' ''Hi'' ''Hello'' [''a@x.com'']
       [] [] []
     = Inr [(''raw'', urlsafe_b64encode
               (wire_text ''subject: Hi\<newline>from: s@x.com\<newline>to: a@x.com\<newline>cc: \<newline>bcc: \<newline>''))]"
    by (simp only: build_msg_obj_def b as_string_hello [OF w] sum.case)
  show "\<not> sublist ''To: a@x.com''
         (wire_text ''subject: Hi\<newline>from: s@x.com\<newline>to: a@x.com\<newline>cc: \<newline>bcc: \<newline>'')"
    by (simp add: wire_text_def example_boundary_def hello_part_text_def sublist_code)
qed

subsection \<open>Header assembly does not depend on earlier calls\<close>

text \<open>
  C8. Two calls in a row with the same arguments (each optional list given or left to its
  default), on any two disks and with any two library behaviours: the first call leaves
  the default list objects as they were, so the second call sees the same defaults; the
  two message objects carry the same headers, and for any boundary and header encoder
  their header blocks are the same text.
\<close>

theorem header_assembly_idempotent:
  assumes "call_build_email_msg d disk1 lib1 email_from email_subject email_body email_to
             cc bcc att = (Inr m1, d1)"
    and "call_build_email_msg d1 disk2 lib2 email_from email_subject email_body email_to
             cc bcc att = (Inr m2, d2)"
  shows "d1 = d \<and> d2 = d
         \<and> snd (call_build_msg_obj d disk1 lib1 email_from email_subject email_body email_to
                  cc bcc att) = d
         \<and> mp_headers m1 = mp_headers m2
         \<and> header_block lib b m1 = header_block lib b m2"
proof -
  from assms have d: "d1 = d" "d2 = d"
    by (simp_all add: call_build_email_msg_def)
  from assms d have
    "mp_headers m1 = mp_headers (email_metadata email_from email_subject email_to
        (argument (default_cc d) cc) (argument (default_bcc d) bcc))"
    "mp_headers m2 = mp_headers (email_metadata email_from email_subject email_to
        (argument (default_cc d) cc) (argument (default_bcc d) bcc))"
    by (auto simp: call_build_email_msg_def dest: build_email_msg_headers)
  then have "mp_headers m1 = mp_headers m2" by simp
  with d show ?thesis
    by (simp add: header_block_def call_build_msg_obj_def)
qed

lemma example_photo_type:
  "split_char CHR ''/'' (resolve_content_type example_mime_lib ''photo.png'') = [''image'', ''png'']"
  by (simp add: resolve_content_type_def example_mime_lib_def example_guess_type_def endswith_def)

lemma build_with_photo:
  assumes "open_rb disk ''photo.png'' = Inr bytes"
  shows "build_email_msg disk example_mime_lib f s ''Hello'' t c b [''photo.png'']
     = Inr (attach (add_header example_mime_lib ''Content-Disposition'' ''attachment''
                      ''filename'' ''photo.png'' (MIMEImage bytes ''png''))
             (attach hello_part (email_metadata f s t c b)))"
  using assms
  by (simp add: build_email_msg_def is_ascii_def hello_part_def
      encode_attachment_for_email_def example_photo_type)

theorem header_assembly_idempotent_witness:
  "call_build_email_msg initial_defaults example_disk example_mime_lib
       ''a@x.com'' ''Test'' ''Hello'' [''b@x.com''] None None (Some [''photo.png''])
     = (Inr (attach (add_header example_mime_lib ''Content-Disposition'' ''attachment''
                      ''filename'' ''photo.png'' (MIMEImage ''PNG'' ''png''))
             (attach hello_part (email_metadata ''a@x.com'' ''Test'' [''b@x.com''] [] []))),
        initial_defaults)
   \<and> call_build_email_msg initial_defaults example_disk2 example_mime_lib
       ''a@x.com'' ''Test'' ''Hello'' [''b@x.com''] None None (Some [''photo.png''])
     = (Inr (attach (add_header example_mime_lib ''Content-Disposition'' ''attachment''
                      ''filename'' ''photo.png'' (MIMEImage ''PNG2'' ''png''))
             (attach hello_part (email_metadata ''a@x.com'' ''Test'' [''b@x.com''] [] []))),
        initial_defaults)
   \<and> header_block example_mime_lib example_boundary
        (attach (add_header example_mime_lib ''Content-Disposition'' ''attachment''
                      ''filename'' ''photo.png'' (MIMEImage ''PNG'' ''png''))
             (attach hello_part (email_metadata ''a@x.com'' ''Test'' [''b@x.com''] [] [])))
      = header_block example_mime_lib example_boundary
        (attach (add_header example_mime_lib ''Content-Disposition'' ''attachment''
                      ''filename'' ''photo.png'' (MIMEImage ''PNG2'' ''png''))
             (attach hello_part (email_metadata ''a@x.com'' ''Test'' [''b@x.com''] [] [])))"
proof -
  have r1: "open_rb example_disk ''photo.png'' = Inr ''PNG''"
    by (simp add: open_rb_def example_disk_def)
  have r2: "open_rb example_disk2 ''photo.png'' = Inr ''PNG2''"
    by (simp add: open_rb_def example_disk2_def example_disk_def)
  have h1: "call_build_email_msg initial_defaults example_disk example_mime_lib
       ''a@x.com'' ''Test'' ''Hello'' [''b@x.com''] None None (Some [''photo.png''])
     = (Inr (attach (add_header example_mime_lib ''Content-Disposition'' ''attachment''
                      ''filename'' ''photo.png'' (MIMEImage ''PNG'' ''png''))
             (attach hello_part (email_metadata ''a@x.com'' ''Test'' [''b@x.com''] [] []))),
        initial_defaults)"
    by (simp add: call_build_email_msg_def initial_defaults_def argument_def
        build_with_photo [OF r1])
  have h2: "call_build_email_msg initial_defaults example_disk2 example_mime_lib
       ''a@x.com'' ''Test'' ''Hello'' [''b@x.com''] None None (Some [''photo.png''])
     = (Inr (attach (add_header example_mime_lib ''Content-Disposition'' ''attachment''
                      ''filename'' ''photo.png'' (MIMEImage ''PNG2'' ''png''))
             (attach hello_part (email_metadata ''a@x.com'' ''Test'' [''b@x.com''] [] []))),
        initial_defaults)"
    by (simp add: call_build_email_msg_def initial_defaults_def argument_def
        build_with_photo [OF r2])
  from header_assembly_idempotent [OF h1 h2, of example_mime_lib example_boundary] h1 h2
  show ?thesis by blast
qed

subsection \<open>Attachments\<close>

text \<open>
  When the loop over the attachment names succeeds, it has appended one part per name, in
  the order of the names, each the encoded attachment with the header
  \<open>Content-Disposition: attachment\<close> carrying that name.
\<close>

lemma attach_all_parts:
  assumes "attach_all disk lib names m = Inr m'"
  shows "\<exists>parts. mp_parts m' = mp_parts m @ parts
           \<and> list_all2 (\<lambda>name part. \<exists>p. encode_attachment_for_email disk lib name = Inr p
                \<and> part = add_header lib ''Content-Disposition'' ''attachment''
                           ''filename'' name p) names parts"
  using assms
proof (induction names arbitrary: m)
  case Nil
  then show ?case by simp
next
  case (Cons n names)
  from Cons.prems obtain p where p: "encode_attachment_for_email disk lib n = Inr p"
    and rest: "attach_all disk lib names
                 (attach (add_header lib ''Content-Disposition'' ''attachment''
                            ''filename'' n p) m) = Inr m'"
    by (auto split: sum.splits)
  from Cons.IH [OF rest] obtain parts where
    "mp_parts m' = mp_parts m
        @ [add_header lib ''Content-Disposition'' ''attachment'' ''filename'' n p] @ parts"
    and "list_all2 (\<lambda>name part. \<exists>p. encode_attachment_for_email disk lib name = Inr p
                \<and> part = add_header lib ''Content-Disposition'' ''attachment''
                           ''filename'' name p) names parts"
    by (auto simp: attach_def)
  with p show ?case
    by (intro exI [of _ "add_header lib ''Content-Disposition'' ''attachment'' ''filename'' n p # parts"])
       simp
qed


text \<open>
  The text category: whatever the file holds, \<open>MIMEText\<close> is given the \<open>bytes\<close> read from
  it and raises.
\<close>

lemma text_category_never_encodes:
  assumes "split_char CHR ''/'' (resolve_content_type lib name) = [''text'', sub]"
    and "open_rb disk name = Inr bytes"
  shows "encode_attachment_for_email disk lib name
           = Inl (AttributeError ''bytes object has no attribute encode'')"
  using assms by (simp add: encode_attachment_for_email_def)

lemma example_notes_type:
  "split_char CHR ''/'' (resolve_content_type example_mime_lib ''notes.txt'') = [''text'', ''plain'']"
  by (simp add: resolve_content_type_def example_mime_lib_def example_guess_type_def endswith_def)

lemma example_notes_readable: "open_rb example_disk ''notes.txt'' = Inr ''remember''"
  by (simp add: open_rb_def example_disk_def)

lemma build_msg_obj_attach_error:
  assumes "attach_all disk lib names
             (attach hello_part (email_metadata f s t c b)) = Inl e"
  shows "build_msg_obj disk lib f s ''Hello'' t c b names = Inl e"
  using assms
  by (simp add: build_msg_obj_def build_email_msg_def is_ascii_def hello_part_def)

text \<open>
  C6 at the input \<open>notes.txt\<close>, a readable file that the guesser types as \<open>text/plain\<close>:
  the encoding of the attachment raises \<open>AttributeError\<close>, and so does the composition of
  a message with that attachment.
\<close>

theorem text_attachment_raises:
  "open_rb example_disk ''notes.txt'' = Inr ''remember''
   \<and> resolve_content_type example_mime_lib ''notes.txt'' = ''text/plain''
   \<and> encode_attachment_for_email example_disk example_mime_lib ''notes.txt''
       = Inl (AttributeError ''bytes object has no attribute encode'')
   \<and> build_msg_obj example_disk example_mime_lib ''a@x.com'' ''Test'' ''Hello'' [''b@x.com'']
         [] [] [''notes.txt'']
       = Inl (AttributeError ''bytes object has no attribute encode'')"
proof -
  have e: "encode_attachment_for_email example_disk example_mime_lib ''notes.txt''
       = Inl (AttributeError ''bytes object has no attribute encode'')"
    by (rule text_category_never_encodes [OF example_notes_type example_notes_readable])
  have r: "resolve_content_type example_mime_lib ''notes.txt'' = ''text/plain''"
    by (simp add: resolve_content_type_def example_mime_lib_def example_guess_type_def
        endswith_def)
  have "build_msg_obj example_disk example_mime_lib ''a@x.com'' ''Test'' ''Hello'' [''b@x.com'']
         [] [] [''notes.txt'']
       = Inl (AttributeError ''bytes object has no attribute encode'')"
    by (rule build_msg_obj_attach_error) (simp add: e)
  with e r example_notes_readable show ?thesis by simp
qed

text \<open>
  A name whose file is missing or unreadable never encodes, and a list holding such a
  name never yields a payload.
\<close>

lemma unreadable_never_encodes:
  assumes "\<forall>bytes. open_rb disk name \<noteq> Inr bytes"
  shows "\<exists>e. encode_attachment_for_email disk lib name = Inl e"
proof (cases "open_rb disk name")
  case (Inl e)
  then show ?thesis
    by (auto simp: encode_attachment_for_email_def split: list.splits)
next
  case (Inr bytes)
  with assms show ?thesis by simp
qed

lemma attach_all_unreadable:
  assumes "name \<in> set names" and "\<forall>bytes. open_rb disk name \<noteq> Inr bytes"
  shows "\<exists>e. attach_all disk lib names m = Inl e"
  using assms
proof (induction names arbitrary: m)
  case Nil
  then show ?case by simp
next
  case (Cons n names)
  show ?case
  proof (cases "encode_attachment_for_email disk lib n")
    case (Inl e)
    then show ?thesis by simp
  next
    case (Inr part)
    with Cons.prems unreadable_never_encodes [of disk name lib] have "name \<in> set names"
      by auto
    with Cons.IH Cons.prems(2) Inr show ?thesis by simp
  qed
qed

lemma unreadable_attachment_no_payload:
  assumes "name \<in> set names" and "\<forall>bytes. open_rb disk name \<noteq> Inr bytes"
  shows "\<exists>e. build_msg_obj disk lib f s email_body t c b names = Inl e"
proof (cases "MIMEText (Py_str email_body) ''plain''")
  case (Inl e)
  then show ?thesis by (simp add: build_msg_obj_def build_email_msg_def)
next
  case (Inr part)
  from attach_all_unreadable [OF assms]
  obtain e where "attach_all disk lib names (attach part (email_metadata f s t c b)) = Inl e"
    by blast
  with Inr show ?thesis by (simp add: build_msg_obj_def build_email_msg_def)
qed


text \<open>
  C9 at the attachment list \<open>notes.txt\<close> (readable text), \<open>missing.bin\<close> (no such file):
  the composition raises the \<open>AttributeError\<close> of the text attachment, which is not an
  I/O error, before the missing file is opened.
\<close>

theorem missing_after_text_attachment:
  "files example_disk ''missing.bin'' = None
   \<and> build_msg_obj example_disk example_mime_lib ''a@x.com'' ''Test'' ''Hello'' [''b@x.com'']
         [] [] [''notes.txt'', ''missing.bin'']
       = Inl (AttributeError ''bytes object has no attribute encode'')
   \<and> \<not> is_OSError (AttributeError ''bytes object has no attribute encode'')"
proof -
  have e: "encode_attachment_for_email example_disk example_mime_lib ''notes.txt''
       = Inl (AttributeError ''bytes object has no attribute encode'')"
    by (rule text_category_never_encodes [OF example_notes_type example_notes_readable])
  have "build_msg_obj example_disk example_mime_lib ''a@x.com'' ''Test'' ''Hello'' [''b@x.com'']
         [] [] [''notes.txt'', ''missing.bin'']
       = Inl (AttributeError ''bytes object has no attribute encode'')"
    by (rule build_msg_obj_attach_error) (simp add: e)
  then show ?thesis by (simp add: example_disk_def)
qed

subsection \<open>Base64 decoding undoes the encoding\<close>

lemma index_of_nth:
  "distinct xs \<Longrightarrow> i < length xs \<Longrightarrow> index_of xs (xs ! i) = Some i"
proof (induction xs arbitrary: i)
  case Nil
  then show ?case by simp
next
  case (Cons x xs)
  show ?case
  proof (cases i)
    case 0
    then show ?thesis by simp
  next
    case (Suc j)
    with Cons.prems have "xs ! j \<in> set xs" "x \<notin> set xs" by auto
    then have "xs ! j \<noteq> x" by auto
    with Suc Cons show ?thesis by simp
  qed
qed

lemma urlsafe_alphabet_ok: "alphabet_ok urlsafe_alphabet"
  by (simp add: alphabet_ok_def urlsafe_alphabet_def)

lemma hi_nibble: "(b::nat) < 256 \<Longrightarrow> b div 16 < 16"
  by (simp add: less_mult_imp_div_less)

lemma hi_pair: "(c::nat) < 256 \<Longrightarrow> c div 64 < 4"
  by (simp add: less_mult_imp_div_less)

lemma hi_six: "(a::nat) < 256 \<Longrightarrow> a div 4 < 64"
  by (simp add: less_mult_imp_div_less)

lemma sextet2: "(b::nat) < 256 \<Longrightarrow> (a mod 4) * 16 + b div 16 < 64"
proof -
  assume "b < 256"
  then have "b div 16 < 16" by (rule hi_nibble)
  moreover have "a mod 4 < 4" by simp
  then have "a mod 4 \<le> 3" by simp
  then have "(a mod 4) * 16 \<le> 3 * 16" by (rule mult_le_mono1)
  ultimately show ?thesis by simp
qed

lemma sextet3: "(c::nat) < 256 \<Longrightarrow> (b mod 16) * 4 + c div 64 < 64"
proof -
  assume "c < 256"
  then have "c div 64 < 4" by (rule hi_pair)
  moreover have "b mod 16 < 16" by simp
  then have "b mod 16 \<le> 15" by simp
  then have "(b mod 16) * 4 \<le> 15 * 4" by (rule mult_le_mono1)
  ultimately show ?thesis by simp
qed

lemma sextet2_short: "((a::nat) mod 4) * 16 < 64"
  using sextet2 [of 0 a] by simp

lemma sextet3_short: "((b::nat) mod 16) * 4 < 64"
  using sextet3 [of 0 b] by simp

lemma octet1: "(b::nat) < 256 \<Longrightarrow> a div 4 * 4 + ((a mod 4) * 16 + b div 16) div 16 = a"
  by (simp add: hi_nibble)

lemma octet2:
  "(b::nat) < 256 \<Longrightarrow> c < 256 \<Longrightarrow>
   (((a mod 4) * 16 + b div 16) mod 16) * 16 + ((b mod 16) * 4 + c div 64) div 4 = b"
  by (simp add: hi_nibble hi_pair)

lemma octet3: "(c::nat) < 256 \<Longrightarrow> (((b mod 16) * 4 + c div 64) mod 4) * 64 + c mod 64 = c"
  by (simp add: hi_pair)

lemma alphabet_index:
  "alphabet_ok al \<Longrightarrow> i < 64 \<Longrightarrow> index_of al (al ! i) = Some i"
  by (simp add: alphabet_ok_def index_of_nth)

lemma alphabet_not_pad:
  "alphabet_ok al \<Longrightarrow> i < 64 \<Longrightarrow> al ! i \<noteq> CHR ''=''"
  by (metis alphabet_ok_def nth_mem)

lemma b64_ungroups_groups:
  "alphabet_ok al \<Longrightarrow> \<forall>n \<in> set ns. n < 256 \<Longrightarrow>
   b64_ungroups al (b64_groups al ns) = Some ns"
proof (induction al ns rule: b64_groups.induct)
  case (1 al)
  then show ?case by simp
next
  case (2 al a)
  then have a: "a < 256" by simp
  from octet1 [of 0 a] have "a div 4 * 4 + a mod 4 * 16 div 16 = a" by simp
  with 2 a show ?case
    by (simp add: alphabet_index hi_six sextet2_short)
next
  case (3 al a b)
  then have ab: "a < 256" "b < 256" by simp_all
  from octet2 [of b 0 a] ab
  have "(a mod 4 * 16 + b div 16) mod 16 * 16 + b mod 16 * 4 div 4 = b" by simp
  with 3 ab octet1 [of b a] show ?case
    by (simp add: alphabet_index alphabet_not_pad hi_six sextet2 sextet3_short)
next
  case (4 al a b c rest)
  then have abc: "a < 256" "b < 256" "c < 256" by simp_all
  have l: "c mod 64 < 64" by simp
  from 4 have rest: "b64_ungroups al (b64_groups al rest) = Some rest" by simp
  from 4 abc l octet1 [of b a] octet2 [of b c a] octet3 [of c b] show ?case
    by (simp add: alphabet_index alphabet_not_pad hi_six sextet2 sextet3 rest)
qed

lemma urlsafe_b64decode_encode: "urlsafe_b64decode (urlsafe_b64encode s) = Some s"
proof -
  have "\<forall>n \<in> set (map of_char s :: nat list). n < 256" by simp
  with urlsafe_alphabet_ok
  have "b64_ungroups urlsafe_alphabet (b64_groups urlsafe_alphabet (map of_char s))
          = Some (map of_char s)"
    by (rule b64_ungroups_groups)
  then show ?thesis
    by (simp add: urlsafe_b64decode_def urlsafe_b64encode_def b64encode_def comp_def)
qed

subsection \<open>The envelope\<close>

lemma MIMEText_ascii:
  "is_ascii t \<Longrightarrow> MIMEText (Py_str t) ''plain'' = Inr (plain_part t)"
  by (simp add: plain_part_def)

lemma flatten_plain_part:
  "flatten_part lib (plain_part t) = Inr (plain_part_lines @ [CHR 0x0A] @ write_lines t)"
  by (simp add: flatten_part_def write_body_def plain_part_def written_as_text_def
      fold_header_def copied_through_def printable_def plain_part_lines_def)

lemma copied_through_container:
  assumes "list_all printable b" and "length b \<le> 100"
  shows "copied_through ''Content-Type''
           (''multipart/mixed; boundary='' @ [CHR 0x22] @ b @ [CHR 0x22])"
  using assms by (simp add: copied_through_def printable_def)

lemma container_lines:
  assumes "list_all printable b" and "length b \<le> 100"
  shows "write_headers lib
     ((''Content-Type'', ''multipart/mixed; boundary='' @ [CHR 0x22] @ b @ [CHR 0x22])
      # (''MIME-Version'', ''1.0'') # hs)
   = (case write_headers lib hs of
        Inl e \<Rightarrow> Inl e
      | Inr hl \<Rightarrow>
          Inr (''Content-Type: multipart/mixed; boundary='' @ [CHR 0x22] @ b
               @ [CHR 0x22] @ ''\<newline>MIME-Version: 1.0\<newline>'' @ hl))"
proof -
  have v: "copied_through ''MIME-Version'' ''1.0''"
    by (simp add: copied_through_def printable_def)
  show ?thesis
    unfolding write_headers.simps fold_header_copied [OF copied_through_container [OF assms]]
      fold_header_copied [OF v]
    by (simp split: sum.splits)
qed

lemma five_lines:
  assumes "copied_through ''subject'' s" "copied_through ''from'' f"
    "copied_through ''to'' t" "copied_through ''cc'' c" "copied_through ''bcc'' b"
  shows "write_headers lib
           [(''subject'', s), (''from'', f), (''to'', t), (''cc'', c), (''bcc'', b)]
         = Inr (''subject: '' @ s @ ''\<newline>from: '' @ f @ ''\<newline>to: '' @ t
                @ ''\<newline>cc: '' @ c @ ''\<newline>bcc: '' @ b @ ''\<newline>'')"
  by (simp add: fold_header_copied assms)

lemma as_string_text_only:
  assumes hs: "copied_through ''subject'' s" "copied_through ''from'' f"
    "copied_through ''to'' (join '', '' t)" "copied_through ''cc'' (join '', '' c)"
    "copied_through ''bcc'' (join '', '' b)"
    and bnd: "\<forall>text. list_all printable (make_boundary lib text)
                   \<and> length (make_boundary lib text) \<le> 100"
  shows "\<exists>pre post.
           as_string lib (attach (plain_part email_body) (email_metadata f s t c b))
             = Inr (pre @ (''subject: '' @ s) @ post @ write_lines email_body
                    @ [CHR 0x0A] @ ''--''
                    @ make_boundary lib (plain_part_lines @ [CHR 0x0A] @ write_lines email_body)
                    @ ''--'' @ [CHR 0x0A])"
proof -
  let ?ptext = "plain_part_lines @ [CHR 0x0A] @ write_lines email_body"
  let ?b = "make_boundary lib ?ptext"
  let ?m = "attach (plain_part email_body) (email_metadata f s t c b)"
  have parts: "flatten_parts lib (mp_parts ?m) = Inr [?ptext]"
    by (simp add: attach_def email_metadata_parts flatten_plain_part)
  have j: "join [CHR 0x0A] [?ptext] = ?ptext" by simp
  have pb: "list_all printable ?b" "length ?b \<le> 100"
    using bnd by simp_all
  have sb: "set_boundary ?b (mp_headers ?m)
              = (''Content-Type'', ''multipart/mixed; boundary='' @ [CHR 0x22] @ ?b @ [CHR 0x22])
                # (''MIME-Version'', ''1.0'')
                # [(''subject'', s), (''from'', f), (''to'', join '', '' t),
                   (''cc'', join '', '' c), (''bcc'', join '', '' b)]"
    by (simp add: attach_def email_metadata_headers set_boundary_def)
  have hb: "header_block lib ?b ?m
              = Inr (''Content-Type: multipart/mixed; boundary='' @ [CHR 0x22] @ ?b
                     @ [CHR 0x22] @ ''\<newline>MIME-Version: 1.0\<newline>''
                     @ (''subject: '' @ s @ ''\<newline>from: '' @ f @ ''\<newline>to: '' @ join '', '' t
                        @ ''\<newline>cc: '' @ join '', '' c @ ''\<newline>bcc: '' @ join '', '' b
                        @ ''\<newline>''))"
    unfolding header_block_def sb container_lines [OF pb] five_lines [OF hs]
    by simp
  have "as_string lib ?m
          = Inr ((''Content-Type: multipart/mixed; boundary='' @ [CHR 0x22] @ ?b
                     @ [CHR 0x22] @ ''\<newline>MIME-Version: 1.0\<newline>'')
                 @ (''subject: '' @ s)
                 @ (''\<newline>from: '' @ f @ ''\<newline>to: '' @ join '', '' t
                        @ ''\<newline>cc: '' @ join '', '' c @ ''\<newline>bcc: '' @ join '', '' b
                        @ ''\<newline>'' @ [CHR 0x0A] @ ''--'' @ ?b @ [CHR 0x0A] @ plain_part_lines
                        @ [CHR 0x0A])
                 @ write_lines email_body @ [CHR 0x0A] @ ''--'' @ ?b @ ''--'' @ [CHR 0x0A])"
    unfolding as_string_def parts sum.case Let_def j hb
    by (simp add: multipart_body_def)
  then show ?thesis by blast
qed

text \<open>
  C3 (amended). Whenever the composer returns, the result is the dictionary with the one
  key \<open>raw\<close>, whose value is the URL-safe base64 encoding of the serialised container, and
  decoding it gives that text back. It does return for a message without attachments
  whose five header values are plain printable ASCII, whose body is ASCII, and whose
  boundary is printable: the decoded text then contains \<open>subject: \<close> followed by the
  subject (the header name in lower case, as the composer sets it) and the body.
\<close>

theorem composer_envelope:
  "(\<forall>d. build_msg_obj disk lib email_from email_subject email_body email_to email_cc
           email_bcc email_attachments = Inr d \<longrightarrow>
        (\<exists>m text. build_email_msg disk lib email_from email_subject email_body email_to
                     email_cc email_bcc email_attachments = Inr m
           \<and> as_string lib m = Inr text
           \<and> d = [(''raw'', urlsafe_b64encode text)]
           \<and> urlsafe_b64decode (urlsafe_b64encode text) = Some text))
   \<and> (copied_through ''subject'' email_subject \<and> copied_through ''from'' email_from
        \<and> copied_through ''to'' (join '', '' email_to)
        \<and> copied_through ''cc'' (join '', '' email_cc)
        \<and> copied_through ''bcc'' (join '', '' email_bcc)
        \<and> is_ascii email_body
        \<and> (\<forall>text. list_all printable (make_boundary lib text)
                    \<and> length (make_boundary lib text) \<le> 100) \<longrightarrow>
        (\<exists>text. build_msg_obj disk lib email_from email_subject email_body email_to email_cc
                   email_bcc [] = Inr [(''raw'', urlsafe_b64encode text)]
           \<and> urlsafe_b64decode (urlsafe_b64encode text) = Some text
           \<and> sublist (''subject: '' @ email_subject) text
           \<and> sublist (write_lines email_body) text))"
proof (intro conjI allI impI)
  fix d
  assume "build_msg_obj disk lib email_from email_subject email_body email_to email_cc
           email_bcc email_attachments = Inr d"
  then show "\<exists>m text. build_email_msg disk lib email_from email_subject email_body email_to
                     email_cc email_bcc email_attachments = Inr m
           \<and> as_string lib m = Inr text
           \<and> d = [(''raw'', urlsafe_b64encode text)]
           \<and> urlsafe_b64decode (urlsafe_b64encode text) = Some text"
    by (auto simp: build_msg_obj_def urlsafe_b64decode_encode split: sum.splits)
next
  assume a: "copied_through ''subject'' email_subject \<and> copied_through ''from'' email_from
        \<and> copied_through ''to'' (join '', '' email_to)
        \<and> copied_through ''cc'' (join '', '' email_cc)
        \<and> copied_through ''bcc'' (join '', '' email_bcc)
        \<and> is_ascii email_body
        \<and> (\<forall>text. list_all printable (make_boundary lib text)
                    \<and> length (make_boundary lib text) \<le> 100)"
  then have m: "build_email_msg disk lib email_from email_subject email_body email_to
                  email_cc email_bcc []
                = Inr (attach (plain_part email_body)
                        (email_metadata email_from email_subject email_to email_cc email_bcc))"
    by (simp add: build_email_msg_def MIMEText_ascii del: MIMEText.simps)
  from a as_string_text_only [of email_subject email_from email_to email_cc email_bcc lib
      email_body]
  obtain pre post tail where
    s: "as_string lib (attach (plain_part email_body)
          (email_metadata email_from email_subject email_to email_cc email_bcc))
        = Inr (pre @ (''subject: '' @ email_subject) @ post @ write_lines email_body @ tail)"
    by blast
  let ?text = "pre @ (''subject: '' @ email_subject) @ post @ write_lines email_body @ tail"
  have "build_msg_obj disk lib email_from email_subject email_body email_to email_cc
          email_bcc [] = Inr [(''raw'', urlsafe_b64encode ?text)]"
    by (simp only: build_msg_obj_def m s sum.case)
  moreover have "sublist (''subject: '' @ email_subject) ?text"
    by (rule sublist_appendI)
  moreover have "sublist (write_lines email_body) ?text"
    using sublist_appendI [of "write_lines email_body"
        "pre @ (''subject: '' @ email_subject) @ post" tail]
    by simp
  ultimately show "\<exists>text. build_msg_obj disk lib email_from email_subject email_body email_to
                   email_cc email_bcc [] = Inr [(''raw'', urlsafe_b64encode text)]
           \<and> urlsafe_b64decode (urlsafe_b64encode text) = Some text
           \<and> sublist (''subject: '' @ email_subject) text
           \<and> sublist (write_lines email_body) text"
    using urlsafe_b64decode_encode by blast
qed


theorem composer_envelope_witness:
  "copied_through ''subject'' ''Test'' \<and> copied_through ''from'' ''a@x.com''
   \<and> copied_through ''to'' (join '', '' [''b@x.com''])
   \<and> copied_through ''cc'' (join '', '' [])
   \<and> copied_through ''bcc'' (join '', '' [])
   \<and> is_ascii ''Hello''
   \<and> (\<forall>text. list_all printable (make_boundary example_mime_lib text)
               \<and> length (make_boundary example_mime_lib text) \<le> 100)
   \<and> (\<exists>text. build_msg_obj example_disk example_mime_lib ''a@x.com'' ''Test'' ''Hello''
                 [''b@x.com''] [] [] [] = Inr [(''raw'', urlsafe_b64encode text)]
          \<and> urlsafe_b64decode (urlsafe_b64encode text) = Some text
          \<and> sublist ''subject: Test'' text
          \<and> sublist ''Hello'' text)"
proof -
  have h: "copied_through ''subject'' ''Test'' \<and> copied_through ''from'' ''a@x.com''
   \<and> copied_through ''to'' (join '', '' [''b@x.com''])
   \<and> copied_through ''cc'' (join '', '' [])
   \<and> copied_through ''bcc'' (join '', '' [])
   \<and> is_ascii ''Hello''
   \<and> (\<forall>text. list_all printable (make_boundary example_mime_lib text)
               \<and> length (make_boundary example_mime_lib text) \<le> 100)"
    by (simp add: copied_through_def printable_def is_ascii_def example_mime_lib_def)
  from composer_envelope [of example_disk example_mime_lib "''a@x.com''" "''Test''"
      "''Hello''" "[''b@x.com'']" "[]" "[]" "[]"] h
  have "\<exists>text. build_msg_obj example_disk example_mime_lib ''a@x.com'' ''Test'' ''Hello''
                 [''b@x.com''] [] [] [] = Inr [(''raw'', urlsafe_b64encode text)]
          \<and> urlsafe_b64decode (urlsafe_b64encode text) = Some text
          \<and> sublist (''subject: '' @ ''Test'') text
          \<and> sublist (write_lines ''Hello'') text"
    by blast
  then have "\<exists>text. build_msg_obj example_disk example_mime_lib ''a@x.com'' ''Test'' ''Hello''
                 [''b@x.com''] [] [] [] = Inr [(''raw'', urlsafe_b64encode text)]
          \<and> urlsafe_b64decode (urlsafe_b64encode text) = Some text
          \<and> sublist ''subject: Test'' text
          \<and> sublist ''Hello'' text"
    by simp
  with h show ?thesis by blast
qed

text \<open>
  C3 as stated fails on the header name: for sender a@x.com, To = [b@x.com], subject
  Test and body Hello, the decoded value has the line \<open>subject: Test\<close> and nowhere the
  text \<open>Subject: Test\<close>.
\<close>

theorem subject_header_counterexample:
  "build_msg_obj example_disk example_mime_lib ''a@x.com'' ''Test'' ''Hello'' [''b@x.com'']
       [] [] []
     = Inr [(''raw'', urlsafe_b64encode
               (wire_text ''subject: Test\<newline>from: a@x.com\<newline>to: b@x.com\<newline>cc: \<newline>bcc: \<newline>''))]
   \<and> urlsafe_b64decode (urlsafe_b64encode
         (wire_text ''subject: Test\<newline>from: a@x.com\<newline>to: b@x.com\<newline>cc: \<newline>bcc: \<newline>''))
       = Some (wire_text ''subject: Test\<newline>from: a@x.com\<newline>to: b@x.com\<newline>cc: \<newline>bcc: \<newline>'')
   \<and> \<not> sublist ''Subject: Test''
         (wire_text ''subject: Test\<newline>from: a@x.com\<newline>to: b@x.com\<newline>cc: \<newline>bcc: \<newline>'')"
proof (intro conjI)
  have b: "build_email_msg example_disk example_mime_lib ''a@x.com'' ''Test'' ''Hello''
              [''b@x.com''] [] [] []
            = Inr (attach hello_part (email_metadata ''a@x.com'' ''Test'' [''b@x.com''] [] []))"
    by (simp add: build_email_msg_def is_ascii_def hello_part_def)
  have w: "write_headers example_mime_lib
             [(''subject'', ''Test''), (''from'', ''a@x.com''), (''to'', join '', '' [''b@x.com'']),
              (''cc'', join '', '' []), (''bcc'', join '', '' [])]
           = Inr ''subject: Test\<newline>from: a@x.com\<newline>to: b@x.com\<newline>cc: \<newline>bcc: \<newline>''"
    by (simp add: example_fold_header)
  show "build_msg_obj example_disk example_mime_lib ''a@x.com'' ''Test'' ''Hello'' [''b@x.com'']
       [] [] []
     = Inr [(''raw'', urlsafe_b64encode
               (wire_text ''subject: Test\<newline>from: a@x.com\<newline>to: b@x.com\<newline>cc: \<newline>bcc: \<newline>''))]"
    by (simp only: build_msg_obj_def b as_string_hello [OF w] sum.case)
  show "urlsafe_b64decode (urlsafe_b64encode
         (wire_text ''subject: Test\<newline>from: a@x.com\<newline>to: b@x.com\<newline>cc: \<newline>bcc: \<newline>''))
       = Some (wire_text ''subject: Test\<newline>from: a@x.com\<newline>to: b@x.com\<newline>cc: \<newline>bcc: \<newline>'')"
    by (rule urlsafe_b64decode_encode)
  show "\<not> sublist ''Subject: Test''
         (wire_text ''subject: Test\<newline>from: a@x.com\<newline>to: b@x.com\<newline>cc: \<newline>bcc: \<newline>'')"
    by (simp add: wire_text_def example_boundary_def hello_part_text_def sublist_code)
qed

end
